theory Spec2Isabelle
  imports Main "HOL-Library.Word" "HOL-Library.AList"
begin

section \<open>JavaScript values\<close>

text \<open>
  The schema class of \<^verbatim>\<open>src/lib/schema.js\<close> works on untyped JavaScript values, so the
  embedding starts with the fragment of the value universe the class can tell apart.
  A string is its sequence of UTF-16 code units; that is what \<^verbatim>\<open>length\<close>, indexing,
  \<^verbatim>\<open>concat\<close> and a regular expression without the \<^verbatim>\<open>u\<close> flag see.
\<close>

type_synonym jsstring = "16 word list"

definition str :: "string \<Rightarrow> jsstring" where
  "str s = map of_char s"

text \<open>
  Function values are opaque handles: the three constructors the class compares with
  (\<^verbatim>\<open>String\<close>, \<^verbatim>\<open>Number\<close>, \<^verbatim>\<open>Object\<close>), the members every object inherits from
  \<^verbatim>\<open>Object.prototype\<close>, and the functions of the caller.
\<close>

datatype jsfun = StringFn | NumberFn | ObjectFn | ProtoFn jsstring | UserFn nat

text \<open>
  \<open>Num\<close> holds the integer-valued numbers; the class only tests numbers for truthiness and
  converts them to property names. \<open>Obj\<close> is a plain object: its own enumerable properties
  in enumeration order. Objects are values here: the class never compares two objects by
  identity.
\<close>

datatype jsval =
    Undefined
  | Null
  | Boolean bool
  | Num int
  | Str jsstring
  | Fn jsfun
  | Obj "(jsstring \<times> jsval) list"
  | Arr "jsval list"

datatype error = TypeError string

fun truthy :: "jsval \<Rightarrow> bool" where
  "truthy Undefined = False"
| "truthy Null = False"
| "truthy (Boolean b) = b"
| "truthy (Num n) = (n \<noteq> 0)"
| "truthy (Str s) = (s \<noteq> [])"
| "truthy (Fn f) = True"
| "truthy (Obj ps) = True"
| "truthy (Arr xs) = True"

fun isString :: "jsval \<Rightarrow> bool" where
  "isString (Str s) = True"
| "isString v = False"

fun isFunction :: "jsval \<Rightarrow> bool" where
  "isFunction (Fn f) = True"
| "isFunction v = False"

fun isBoolean :: "jsval \<Rightarrow> bool" where
  "isBoolean (Boolean b) = True"
| "isBoolean v = False"

fun isPlainObject :: "jsval \<Rightarrow> bool" where
  "isPlainObject (Obj ps) = True"
| "isPlainObject v = False"

fun typeof_object :: "jsval \<Rightarrow> bool" where
  "typeof_object Null = True"
| "typeof_object (Obj ps) = True"
| "typeof_object (Arr xs) = True"
| "typeof_object v = False"

subsection \<open>Property tables\<close>

text \<open>
  The side tables of a schema (\<^verbatim>\<open>methods\<close>, \<^verbatim>\<open>statics\<close>, \<^verbatim>\<open>descriptor\<close>, ...) are plain
  objects created by \<^verbatim>\<open>{}\<close>. A table lists the own properties in the order \<^verbatim>\<open>for ... in\<close>
  visits them, which is insertion order for every name that is not a canonical array index.
  \<open>put\<close> is the assignment \<^verbatim>\<open>t[k] = v\<close>: an existing own property keeps its place. The
  name \<^verbatim>\<open>__proto__\<close> is the accessor of \<^verbatim>\<open>Object.prototype\<close>: assigning to it where it is
  not an own property creates no property; the prototype that the assignment installs
  instead is not followed by later reads. The loops of the class ask the table itself for
  \<^verbatim>\<open>hasOwnProperty\<close>; a table is taken to have no property of that name, where the code
  would call the property and throw.
\<close>

type_synonym 'v table = "(jsstring \<times> 'v) list"

definition own :: "'v table \<Rightarrow> jsstring \<Rightarrow> 'v option" where
  "own t k = map_of t k"

definition put :: "'v table \<Rightarrow> jsstring \<Rightarrow> 'v \<Rightarrow> 'v table" where
  "put t k v =
     (if own t k = None \<and> k = str ''__proto__'' then t else AList.update k v t)"

definition objectPrototypeNames :: "jsstring list" where
  "objectPrototypeNames = map str
     [''__defineGetter__'', ''__defineSetter__'', ''hasOwnProperty'', ''__lookupGetter__'',
      ''__lookupSetter__'', ''isPrototypeOf'', ''propertyIsEnumerable'', ''toString'',
      ''valueOf'', ''toLocaleString'']"

text \<open>
  \<open>read\<close> is the property read \<^verbatim>\<open>t[k]\<close>: the own property, else what \<^verbatim>\<open>Object.prototype\<close> has
  under that name, else \<^verbatim>\<open>undefined\<close>. Every inherited value is truthy.
\<close>

definition read :: "jsval table \<Rightarrow> jsstring \<Rightarrow> jsval" where
  "read t k =
     (case own t k of
        Some v \<Rightarrow> v
      | None \<Rightarrow>
          if k = str ''constructor'' then Fn ObjectFn
          else if k \<in> set objectPrototypeNames then Fn (ProtoFn k)
          else if k = str ''__proto__'' then Obj []
          else Undefined)"

subsection \<open>Strings\<close>

text \<open>
  The decimal digits of a number, as \<^verbatim>\<open>String(n)\<close> prints an integer below \<^verbatim>\<open>1e21\<close> in
  magnitude.
\<close>

fun digits :: "nat \<Rightarrow> jsstring" where
  "digits n = (if n < 10 then [of_nat (48 + n)] else digits (n div 10) @ [of_nat (48 + n mod 10)])"

definition numberToString :: "int \<Rightarrow> jsstring" where
  "numberToString n = (if n < 0 then str ''-'' @ digits (nat (- n)) else digits (nat n))"

text \<open>
  \<^verbatim>\<open>Buffer.byteLength(s)\<close>: the length of the UTF-8 encoding. A surrogate pair is one code
  point of four bytes; a lone surrogate is encoded as U+FFFD, three bytes.
\<close>

fun byteLength :: "jsstring \<Rightarrow> nat" where
  "byteLength [] = 0"
| "byteLength [c] = (if c < 0x80 then 1 else if c < 0x800 then 2 else 3)"
| "byteLength (c # d # cs) =
     (if c < 0x80 then 1 + byteLength (d # cs)
      else if c < 0x800 then 2 + byteLength (d # cs)
      else if 0xD800 \<le> c \<and> c \<le> 0xDBFF \<and> 0xDC00 \<le> d \<and> d \<le> 0xDFFF then 4 + byteLength cs
      else 3 + byteLength (d # cs))"

subsection \<open>The key pattern\<close>

text \<open>
  \<^verbatim>\<open>getDocumentKeyValue\<close> builds \<^verbatim>\<open>new RegExp(`^${prefixRX}.*${suffixRX}$`)\<close> from the
  escaped prefix and suffix. \<^verbatim>\<open>escapeStringRegexp\<close> makes each of them a pattern that matches
  exactly that text, so the pattern is a literal, \<^verbatim>\<open>.*\<close>, and a literal, anchored at both
  ends. Without the \<^verbatim>\<open>s\<close> flag the dot matches every code unit but the four line
  terminators.
\<close>

definition lineTerminator :: "16 word \<Rightarrow> bool" where
  "lineTerminator c = (c = 0x0A \<or> c = 0x0D \<or> c = 0x2028 \<or> c = 0x2029)"

datatype rx = Lit jsstring | DotStar

fun rx_test :: "rx list \<Rightarrow> jsstring \<Rightarrow> bool" where
  "rx_test [] s = (s = [])"
| "rx_test (Lit p # r) s = (take (length p) s = p \<and> rx_test r (drop (length p) s))"
| "rx_test (DotStar # r) [] = rx_test r []"
| "rx_test (DotStar # r) (c # cs) =
     (rx_test r (c # cs) \<or> (\<not> lineTerminator c \<and> rx_test (DotStar # r) cs))"

text \<open>
  \<^verbatim>\<open>s.replace(new RegExp(`^${prefixRX}`), '')\<close> and \<^verbatim>\<open>s.replace(new RegExp(`${suffixRX}$`), '')\<close>:
  the literal is cut off where the string starts, or ends, with it.
\<close>

definition replace_start :: "jsstring \<Rightarrow> jsstring \<Rightarrow> jsstring" where
  "replace_start p s = (if take (length p) s = p then drop (length p) s else s)"

definition replace_end :: "jsstring \<Rightarrow> jsstring \<Rightarrow> jsstring" where
  "replace_end x s =
     (if length x \<le> length s \<and> drop (length s - length x) s = x
      then take (length s - length x) s else s)"

section \<open>The schema\<close>

datatype index_path = Single jsstring | Compound "jsstring list"

record index_data =
  path :: index_path
  name :: jsstring
  indexType :: jsstring
  compound :: bool
  refKeyCase :: "jsstring option"

datatype hook_kind = Pre | Post

record hook_entry =
  hook :: hook_kind
  hname :: jsstring
  fns :: "jsval list"

record key_policy =
  docKeyKey :: jsstring
  prefix :: jsval
  suffix :: jsval
  generate :: bool
  dynamicKey :: jsval

record schema =
  options :: "jsval table"
  descriptor :: "jsval table"
  methods :: "jsval table"
  statics :: "jsval table"
  hooks :: "hook_entry table"
  refs :: "jsval table"
  indexes :: "index_data table"
  key :: key_policy

text \<open>
  What the class takes from outside \<^verbatim>\<open>schema.js\<close> is a parameter of the model: the
  behaviour of the caller's functions (\<open>call\<close>), the string conversion of objects, the
  case mappings of the runtime, the MD5 hex digest of \<^verbatim>\<open>crypto\<close>, \<^verbatim>\<open>inflection.singularize\<close>,
  \<^verbatim>\<open>_.merge\<close>, and two modules of the repository that are not among the sources:
  \<^verbatim>\<open>normalize.js\<close> (\<open>normalizeProperties\<close>, called with the schema as \<^verbatim>\<open>this\<close>) and
  \<^verbatim>\<open>schema.utils.js\<close> (the fields \<open>schemaUtils_...\<close>). Each of them is a function of its
  arguments here: a caller's function that changes the schema is outside the model.
\<close>

record host =
  call :: "jsfun \<Rightarrow> jsval list \<Rightarrow> error + jsval"
  objectToString :: "jsval \<Rightarrow> jsstring"
  toUpperCase :: "jsstring \<Rightarrow> jsstring"
  toLowerCase :: "jsstring \<Rightarrow> jsstring"
  md5_hex :: "jsstring \<Rightarrow> jsstring"
  inflection_singularize :: "jsval \<Rightarrow> error + jsstring"
  lodash_merge :: "jsval \<Rightarrow> jsval \<Rightarrow> jsval"
  normalizeProperties :: "schema \<Rightarrow> jsval \<Rightarrow> jsval \<Rightarrow> jsval"
  schemaUtils_getRefs :: "jsval \<Rightarrow> (jsstring \<times> jsval) list"
  schemaUtils_getIndexes :: "jsval \<Rightarrow> jsval \<Rightarrow> index_data list"
  schemaUtils_getIndexName :: "jsstring list \<Rightarrow> jsstring"

fun ToString :: "host \<Rightarrow> jsval \<Rightarrow> jsstring" where
  "ToString h Undefined = str ''undefined''"
| "ToString h Null = str ''null''"
| "ToString h (Boolean b) = (if b then str ''true'' else str ''false'')"
| "ToString h (Num n) = numberToString n"
| "ToString h (Str s) = s"
| "ToString h v = objectToString h v"

subsection \<open>Document keys\<close>

text \<open>
  \<^verbatim>\<open>getDocumentKeyValue(id, full)\<close>, lines 570 to 604. A string is tested against the key
  pattern; with \<^verbatim>\<open>full\<close> the key is expanded unless it matches already, and handed to the
  dynamic key function when there is one; without \<^verbatim>\<open>full\<close> a matching key loses its
  prefix and suffix. Any other value is returned as it is.
\<close>

definition key_prefix :: "schema \<Rightarrow> jsstring" where
  "key_prefix s = (case prefix (key s) of Str p \<Rightarrow> p | _ \<Rightarrow> [])"

definition key_suffix :: "schema \<Rightarrow> jsstring" where
  "key_suffix s = (case suffix (key s) of Str x \<Rightarrow> x | _ \<Rightarrow> [])"

definition key_test :: "schema \<Rightarrow> jsstring \<Rightarrow> bool" where
  "key_test s i = rx_test [Lit (key_prefix s), DotStar, Lit (key_suffix s)] i"

definition dynamic :: "host \<Rightarrow> schema \<Rightarrow> jsstring \<Rightarrow> error + jsval" where
  "dynamic h s k =
     (case dynamicKey (key s) of Fn f \<Rightarrow> call h f [Str k] | _ \<Rightarrow> Inr (Str k))"

definition getDocumentKeyValue :: "host \<Rightarrow> schema \<Rightarrow> jsval \<Rightarrow> jsval \<Rightarrow> error + jsval" where
  "getDocumentKeyValue h s ident full =
     (case ident of
        Str i \<Rightarrow>
          if truthy full then
            (if key_test s i then dynamic h s i
             else dynamic h s (key_prefix s @ i @ key_suffix s))
          else if key_test s i
            then Inr (Str (replace_end (key_suffix s) (replace_start (key_prefix s) i)))
            else Inr (Str i)
      | _ \<Rightarrow> Inr ident)"

subsection \<open>Reference keys\<close>

text \<open>
  Modelled from the spec: \<^verbatim>\<open>utils.REF_KEY_CASE\<close> is declared in \<^verbatim>\<open>utils.js\<close>, which is not
  among the sources; the two casings are \<^verbatim>\<open>'upper'\<close> and \<^verbatim>\<open>'lower'\<close>, as the comment of
  \<^verbatim>\<open>index\<close> and section 4.3 of the specification list them.
\<close>

definition REF_KEY_CASE_UPPER :: jsstring where
  "REF_KEY_CASE_UPPER = str ''upper''"

definition REF_KEY_CASE_LOWER :: jsstring where
  "REF_KEY_CASE_LOWER = str ''lower''"

definition MAX_REF_KEY_LENGTH :: nat where
  "MAX_REF_KEY_LENGTH = 250"

definition or_empty :: "jsval \<Rightarrow> jsval" where
  "or_empty v = (if truthy v then v else Str [])"

text \<open>The key prefix of a reference key: \<^verbatim>\<open>keyPrefix\<close>, or what \<^verbatim>\<open>dynamicKey()\<close> returns.\<close>

definition refKeyPrefix :: "host \<Rightarrow> schema \<Rightarrow> error + jsval" where
  "refKeyPrefix h s =
     (case read (options s) (str ''dynamicKey'') of
        Fn f \<Rightarrow> call h f []
      | _ \<Rightarrow> Inr (or_empty (read (options s) (str ''keyPrefix''))))"

text \<open>
  The casing of the index \<^verbatim>\<open>this.indexes[name]\<close>. A member that the table inherits under
  the name has no \<^verbatim>\<open>refKeyCase\<close>, so only an own entry changes the value.
\<close>

definition foldCase :: "host \<Rightarrow> schema \<Rightarrow> jsstring \<Rightarrow> jsstring \<Rightarrow> jsstring" where
  "foldCase h s nm v =
     (case own (indexes s) nm of
        None \<Rightarrow> v
      | Some ix \<Rightarrow>
          if refKeyCase ix = Some REF_KEY_CASE_UPPER then toUpperCase h v
          else if refKeyCase ix = Some REF_KEY_CASE_LOWER then toLowerCase h v
          else v)"

definition fullPrefix :: "host \<Rightarrow> schema \<Rightarrow> jsstring \<Rightarrow> jsstring \<Rightarrow> jsstring" where
  "fullPrefix h s kp nm =
     kp @ ToString h (or_empty (read (options s) (str ''refIndexKeyPrefix''))) @ nm
        @ ToString h (read (options s) (str ''delimiter''))"

text \<open>
  \<^verbatim>\<open>getRefKey(name, v)\<close>, lines 612 to 639, for a string \<^verbatim>\<open>name\<close> and a string \<^verbatim>\<open>v\<close>. A
  key prefix that is not a string has no \<^verbatim>\<open>concat\<close> that gives a string, and the call
  ends in a \<^verbatim>\<open>TypeError\<close>.
\<close>

definition getRefKey :: "host \<Rightarrow> schema \<Rightarrow> jsstring \<Rightarrow> jsstring \<Rightarrow> error + jsstring" where
  "getRefKey h s nm v =
     (case refKeyPrefix h s of
        Inl e \<Rightarrow> Inl e
      | Inr (Str kp) \<Rightarrow>
          let v' = foldCase h s nm v;
              fp = fullPrefix h s kp nm
          in if byteLength (fp @ v') > MAX_REF_KEY_LENGTH
             then Inr (fp @ str ''hashed_'' @ md5_hex h v')
             else Inr (fp @ v')
      | Inr other \<Rightarrow> Inl (TypeError ''kp.concat is not a function''))"

subsection \<open>Outcomes\<close>

text \<open>
  A method that changes the schema either completes, or throws; the schema it leaves behind
  is part of both outcomes, since what was assigned before a \<^verbatim>\<open>throw\<close> stays assigned.
\<close>

datatype completion = Normal schema | Throw error schema

subsection \<open>The document key of a descriptor\<close>

text \<open>
  \<^verbatim>\<open>_applyDocumentKey(descriptor)\<close>, lines 109 to 159. The loop visits the own properties of
  \<^verbatim>\<open>this.descriptor\<close>; \<open>field\<close> reads a member of one of them.
\<close>

definition field :: "jsval \<Rightarrow> string \<Rightarrow> jsval" where
  "field d f = (case d of Obj ps \<Rightarrow> read ps (str f) | _ \<Rightarrow> Undefined)"

text \<open>
  Modelled from the spec: \<^verbatim>\<open>utils.isPlainObject\<close> is declared in \<^verbatim>\<open>utils.js\<close>, which is not
  among the sources; it is the check for a plain descriptor object of section 9 of the
  specification, \<open>isPlainObject\<close> in this value universe. A property qualifies as the
  key when \<^verbatim>\<open>utils.isPlainObject(descriptor[prop]) && descriptor[prop].key === true\<close>.
\<close>

definition isKeyProperty :: "jsval \<Rightarrow> bool" where
  "isKeyProperty d = (isPlainObject d \<and> field d ''key'' = Boolean True)"

definition keyTypeAllowed :: "jsval \<Rightarrow> bool" where
  "keyTypeAllowed t =
     (t = Fn StringFn \<or> t = Fn NumberFn \<or> t = Str (str ''number'') \<or> t = Str (str ''string''))"

definition applyKeyProperty :: "host \<Rightarrow> schema \<Rightarrow> jsstring \<Rightarrow> jsval \<Rightarrow> completion" where
  "applyKeyProperty h s p d =
     (if field d ''index'' = Boolean True
        then Throw (TypeError ''Schema key cannot be index field'') s
      else if truthy (field d ''ref'')
        then Throw (TypeError ''Schema key cannot be reference property'') s
      else if truthy (field d ''type'') \<and> \<not> keyTypeAllowed (field d ''type'')
        then Throw (TypeError ''Schema expects key to be a String or a Number'') s
      else
        let k1 = (key s)\<lparr>generate := False, docKeyKey := p\<rparr>;
            k2 = (if isString (field d ''prefix'') then k1\<lparr>prefix := field d ''prefix''\<rparr> else k1);
            k3 = (if isString (field d ''suffix'') then k2\<lparr>suffix := field d ''suffix''\<rparr> else k2);
            k4 = (case field d ''generate'' of Boolean b \<Rightarrow> k3\<lparr>generate := b\<rparr> | _ \<Rightarrow> k3);
            s1 = s\<lparr>key := k4\<rparr>
        in Normal (s1\<lparr>descriptor := put (descriptor s1) p (normalizeProperties h s1 d (Str p))\<rparr>))"

text \<open>
  The loop, with \<^verbatim>\<open>docKeyFound\<close> as its second result. Each property is read when the loop
  reaches it; the loop itself only assigns to the property it is at.
\<close>

fun applyKeyLoop :: "host \<Rightarrow> jsval table \<Rightarrow> bool \<Rightarrow> schema \<Rightarrow> bool \<times> completion" where
  "applyKeyLoop h [] found s = (found, Normal s)"
| "applyKeyLoop h ((p, d) # r) found s =
     (if isKeyProperty d then
        (case applyKeyProperty h s p d of
           Throw e s' \<Rightarrow> (found, Throw e s')
         | Normal s' \<Rightarrow> applyKeyLoop h r True s')
      else applyKeyLoop h r found s)"

definition synthesizeKey :: "host \<Rightarrow> schema \<Rightarrow> schema" where
  "synthesizeKey h s =
     (let s1 = s\<lparr>key := (key s)\<lparr>docKeyKey := str ''id''\<rparr>\<rparr>
      in s1\<lparr>descriptor :=
              put (descriptor s1) (str ''id'') (normalizeProperties h s1 (Fn StringFn) (Str (str ''id'')))\<rparr>)"

definition applyDocumentKey :: "host \<Rightarrow> schema \<Rightarrow> completion" where
  "applyDocumentKey h s =
     (case applyKeyLoop h (descriptor s) False s of
        (found, Throw e s') \<Rightarrow> Throw e s'
      | (found, Normal s') \<Rightarrow>
          if \<not> found \<and> docKeyKey (key s') = [] then Normal (synthesizeKey h s') else Normal s')"

subsection \<open>References and declared indexes\<close>

text \<open>\<^verbatim>\<open>_getRefs\<close>, lines 165 to 172: each entry is stored under its path.\<close>

definition getRefs :: "host \<Rightarrow> schema \<Rightarrow> jsval \<Rightarrow> schema" where
  "getRefs h s d =
     s\<lparr>refs := fold (\<lambda>(p, e) t. put t p e) (schemaUtils_getRefs h d) (refs s)\<rparr>"

text \<open>
  \<^verbatim>\<open>_getIndexes\<close>, lines 178 to 186: each entry is stored under \<^verbatim>\<open>elem.path\<close>, as a property
  name; the name of an array is its elements joined by commas.
\<close>

fun join_comma :: "jsstring list \<Rightarrow> jsstring" where
  "join_comma [] = []"
| "join_comma [p] = p"
| "join_comma (p # q # r) = p @ str '','' @ join_comma (q # r)"

fun path_key :: "index_path \<Rightarrow> jsstring" where
  "path_key (Single p) = p"
| "path_key (Compound ps) = join_comma ps"

definition getIndexes :: "host \<Rightarrow> schema \<Rightarrow> jsval \<Rightarrow> jsval \<Rightarrow> schema" where
  "getIndexes h s d k =
     s\<lparr>indexes := fold (\<lambda>e t. put t (path_key (path e)) e) (schemaUtils_getIndexes h d k) (indexes s)\<rparr>"

subsection \<open>Declaring an index\<close>

text \<open>
  \<^verbatim>\<open>index(prop, options)\<close>, lines 226 to 259, for a property name or an array of property
  names, and for options that are strings where they are given, as the comment of the
  method declares them. An option that is absent or the empty string is falsy.
\<close>

record index_options =
  opt_indexName :: "jsstring option"
  opt_indexType :: "jsstring option"
  opt_refKeyCase :: "jsstring option"

definition given :: "jsstring option \<Rightarrow> jsstring option" where
  "given v = (case v of Some s \<Rightarrow> (if s = [] then None else Some s) | None \<Rightarrow> None)"

text \<open>\<^verbatim>\<open>trailingDigitReg = new RegExp('^\\d+$')\<close>: the whole string is decimal digits.\<close>

definition trailingDigitReg_test :: "jsstring \<Rightarrow> bool" where
  "trailingDigitReg_test p = (p \<noteq> [] \<and> list_all (\<lambda>c. 0x30 \<le> c \<and> c \<le> 0x39) p)"

text \<open>\<^verbatim>\<open>p[p.length - 2]\<close>: the code unit before the last one, \<^verbatim>\<open>undefined\<close> when there is none.\<close>

definition before_last :: "jsstring \<Rightarrow> jsval" where
  "before_last p = (if 2 \<le> length p then Str [p ! (length p - 2)] else Undefined)"

text \<open>\<^verbatim>\<open>p.replace('.', '_')\<close>: the first dot only.\<close>

fun replace_dot :: "jsstring \<Rightarrow> jsstring" where
  "replace_dot [] = []"
| "replace_dot (c # cs) = (if c = 0x2E then 0x5F # cs else c # replace_dot cs)"

definition indexProp :: "host \<Rightarrow> jsstring \<Rightarrow> error + jsstring" where
  "indexProp h p =
     (case (if trailingDigitReg_test p then before_last p else Str p) of
        Str q \<Rightarrow> inflection_singularize h (Str (replace_dot q))
      | _ \<Rightarrow> Inl (TypeError ''Cannot read property replace of undefined''))"

fun indexProps :: "host \<Rightarrow> jsstring list \<Rightarrow> error + jsstring list" where
  "indexProps h [] = Inr []"
| "indexProps h (p # ps) =
     (case indexProp h p of
        Inl e \<Rightarrow> Inl e
      | Inr q \<Rightarrow> (case indexProps h ps of Inl e \<Rightarrow> Inl e | Inr qs \<Rightarrow> Inr (q # qs)))"

definition inferIndexName :: "host \<Rightarrow> index_path \<Rightarrow> error + jsstring" where
  "inferIndexName h prop =
     (case prop of
        Compound ps \<Rightarrow>
          (case indexProps h ps of Inl e \<Rightarrow> Inl e | Inr qs \<Rightarrow> Inr (schemaUtils_getIndexName h qs))
      | Single p \<Rightarrow>
          inflection_singularize h (if trailingDigitReg_test p then before_last p else Str p))"

definition isCompound :: "index_path \<Rightarrow> bool" where
  "isCompound prop = (case prop of Compound ps \<Rightarrow> True | Single p \<Rightarrow> False)"

definition indexNameFor :: "host \<Rightarrow> index_path \<Rightarrow> index_options \<Rightarrow> error + jsstring" where
  "indexNameFor h prop opts =
     (case given (opt_indexName opts) of Some n \<Rightarrow> Inr n | None \<Rightarrow> inferIndexName h prop)"

definition index :: "host \<Rightarrow> schema \<Rightarrow> index_path \<Rightarrow> index_options \<Rightarrow> completion" where
  "index h s prop opts =
     (case indexNameFor h prop opts of
        Inl e \<Rightarrow> Throw e s
      | Inr indexName \<Rightarrow>
          let indexData =
                \<lparr>path = prop, name = indexName,
                 indexType = (case given (opt_indexType opts) of Some t \<Rightarrow> t | None \<Rightarrow> str ''single''),
                 compound = isCompound prop,
                 refKeyCase = given (opt_refKeyCase opts)\<rparr>
          in Normal (s\<lparr>indexes := put (indexes s) indexName indexData\<rparr>))"

subsection \<open>Methods, statics and virtuals\<close>

text \<open>
  \<^verbatim>\<open>method(name, func)\<close>, lines 287 to 303. A plain object is a map of names to functions:
  its own properties are registered one by one, and the first that is refused ends the
  loop, with the earlier ones registered.
\<close>

definition method_named :: "schema \<Rightarrow> jsval \<Rightarrow> jsval \<Rightarrow> completion" where
  "method_named s nm func =
     (case nm of
        Str n \<Rightarrow>
          if \<not> isFunction func
            then Throw (TypeError ''Schema#method expects a function as a handle'') s
          else Normal (s\<lparr>methods := put (methods s) n func\<rparr>)
      | _ \<Rightarrow> Throw (TypeError ''Schema#method expects a string identifier as a function name'') s)"

fun method_each :: "jsval table \<Rightarrow> schema \<Rightarrow> completion" where
  "method_each [] s = Normal s"
| "method_each ((n, f) # r) s =
     (case method_named s (Str n) f of
        Throw e s' \<Rightarrow> Throw e s'
      | Normal s' \<Rightarrow> method_each r s')"

definition method_schema :: "schema \<Rightarrow> jsval \<Rightarrow> jsval \<Rightarrow> completion" where
  "method_schema s nm func =
     (case nm of Obj ps \<Rightarrow> method_each ps s | _ \<Rightarrow> method_named s nm func)"

text \<open>\<^verbatim>\<open>static(name, func)\<close>, lines 328 to 342: as \<^verbatim>\<open>method\<close>, but any value is stored.\<close>

definition static_named :: "schema \<Rightarrow> jsval \<Rightarrow> jsval \<Rightarrow> completion" where
  "static_named s nm func =
     (case nm of
        Str n \<Rightarrow> Normal (s\<lparr>statics := put (statics s) n func\<rparr>)
      | _ \<Rightarrow> Throw (TypeError ''Schema#statics expects a string identifier as a function name'') s)"

fun static_each :: "jsval table \<Rightarrow> schema \<Rightarrow> completion" where
  "static_each [] s = Normal s"
| "static_each ((n, f) # r) s =
     (case static_named s (Str n) f of
        Throw e s' \<Rightarrow> Throw e s'
      | Normal s' \<Rightarrow> static_each r s')"

definition static :: "schema \<Rightarrow> jsval \<Rightarrow> jsval \<Rightarrow> completion" where
  "static s nm func =
     (case nm of Obj ps \<Rightarrow> static_each ps s | _ \<Rightarrow> static_named s nm func)"

text \<open>
  \<^verbatim>\<open>virtual(name, type, options)\<close>, lines 381 to 409. With a plain object as second argument
  and no third one the object is the options and the type is \<^verbatim>\<open>'any'\<close>; the two checks of
  the options are the other branches of that test.
\<close>

definition virtualType :: "jsval \<Rightarrow> jsval \<Rightarrow> jsval" where
  "virtualType ty opts =
     Obj ([(str ''type'', ty), (str ''virtual'', Boolean True), (str ''get'', field opts ''get''),
           (str ''invisible'', Boolean True)]
          @ (if truthy (field opts ''set'') then [(str ''set'', field opts ''set'')]
             else [(str ''readOnly'', Boolean True)]))"

definition virtual :: "schema \<Rightarrow> jsval \<Rightarrow> jsval \<Rightarrow> jsval \<Rightarrow> completion" where
  "virtual s nm ty opts =
     (case nm of
        Str n \<Rightarrow>
          if isPlainObject ty \<and> \<not> truthy opts
            then Normal (s\<lparr>descriptor := put (descriptor s) n (virtualType (Str (str ''any'')) ty)\<rparr>)
          else if \<not> isPlainObject opts
            then Throw (TypeError ''Schema#virtual expects an object as a handle'') s
          else if \<not> isFunction (field opts ''get'')
            then Throw (TypeError ''Schema#virtual expects an object with a get function'') s
          else Normal (s\<lparr>descriptor := put (descriptor s) n (virtualType ty opts)\<rparr>)
      | _ \<Rightarrow> Throw (TypeError ''Schema#virtual expects a string identifier as a property name'') s)"

subsection \<open>Options and hooks\<close>

text \<open>\<^verbatim>\<open>set(key, value)\<close> with two arguments, and \<^verbatim>\<open>get(key)\<close>; lines 418 to 437.\<close>

definition set_schema :: "schema \<Rightarrow> jsstring \<Rightarrow> jsval \<Rightarrow> schema" where
  "set_schema s k v = s\<lparr>options := put (options s) k v\<rparr>"

definition get_schema :: "schema \<Rightarrow> jsstring \<Rightarrow> jsval" where
  "get_schema s k = read (options s) k"

text \<open>
  \<^verbatim>\<open>_hook(hook, name, fn)\<close>, lines 455 to 465, with \<^verbatim>\<open>pre\<close> and \<^verbatim>\<open>post\<close>: the functions of
  one event are kept in registration order under \<^verbatim>\<open>`${hook}:${name}`\<close>, a name with a
  colon, which no inherited member has.
\<close>

definition hook_key :: "hook_kind \<Rightarrow> jsstring \<Rightarrow> jsstring" where
  "hook_key k n = (case k of Pre \<Rightarrow> str ''pre'' | Post \<Rightarrow> str ''post'') @ str '':'' @ n"

definition hook_schema :: "schema \<Rightarrow> hook_kind \<Rightarrow> jsstring \<Rightarrow> jsval \<Rightarrow> schema" where
  "hook_schema s k n fn =
     (case own (hooks s) (hook_key k n) of
        Some e \<Rightarrow> s\<lparr>hooks := put (hooks s) (hook_key k n) (e\<lparr>fns := fns e @ [fn]\<rparr>)\<rparr>
      | None \<Rightarrow> s\<lparr>hooks := put (hooks s) (hook_key k n) \<lparr>hook = k, hname = n, fns = [fn]\<rparr>\<rparr>)"

definition pre :: "schema \<Rightarrow> jsstring \<Rightarrow> jsval \<Rightarrow> schema" where
  "pre s n fn = hook_schema s Pre n fn"

definition post :: "schema \<Rightarrow> jsstring \<Rightarrow> jsval \<Rightarrow> schema" where
  "post s n fn = hook_schema s Post n fn"

subsection \<open>Adding properties\<close>

text \<open>
  \<^verbatim>\<open>_.each(key, ...)\<close> of \<^verbatim>\<open>add\<close>: the elements of an array with their indexes, the own
  properties of an object with their names; lodash reads an object whose \<^verbatim>\<open>length\<close> is a
  number from 0 to \<^verbatim>\<open>Number.MAX_SAFE_INTEGER\<close> as an array, and nothing from \<^verbatim>\<open>null\<close>.
\<close>

definition each_entries :: "jsval \<Rightarrow> (jsval \<times> jsval) list" where
  "each_entries v =
     (case v of
        Arr xs \<Rightarrow> map (\<lambda>(i, x). (Num (int i), x)) (enumerate 0 xs)
      | Obj ps \<Rightarrow>
          (case own ps (str ''length'') of
             Some (Num n) \<Rightarrow>
               if 0 \<le> n \<and> n \<le> 9007199254740991
               then map (\<lambda>i. (Num (int i), read ps (digits i))) [0..<nat n]
               else map (\<lambda>(k, x). (Str k, x)) ps
           | _ \<Rightarrow> map (\<lambda>(k, x). (Str k, x)) ps)
      | _ \<Rightarrow> [])"

text \<open>
  \<^verbatim>\<open>add(key, descriptor)\<close>, lines 477 to 497: first the part under
  \<^verbatim>\<open>// adjust our descriptor\<close>, then \<^verbatim>\<open>_applyDocumentKey\<close> on the whole descriptor. The
  table \<^verbatim>\<open>this.descriptor\<close> that \<^verbatim>\<open>add\<close> creates when it is missing is the empty table.
\<close>

definition addProperty :: "host \<Rightarrow> schema \<Rightarrow> jsval \<Rightarrow> jsval \<Rightarrow> schema" where
  "addProperty h s k d =
     s\<lparr>descriptor := put (descriptor s) (ToString h k) (normalizeProperties h s d k)\<rparr>"

definition adjustDescriptor :: "host \<Rightarrow> schema \<Rightarrow> jsval \<Rightarrow> jsval \<Rightarrow> schema" where
  "adjustDescriptor h s k d =
     (if truthy k \<and> truthy d then
        addProperty h (getIndexes h (getRefs h s d) d k) k d
      else if typeof_object k \<and> \<not> truthy d then
        fold (\<lambda>(i, properties) s'. addProperty h s' i properties) (each_entries k)
          (getIndexes h (getRefs h s k) k Undefined)
      else s)"

definition add :: "host \<Rightarrow> schema \<Rightarrow> jsval \<Rightarrow> jsval \<Rightarrow> completion" where
  "add h s k d = applyDocumentKey h (adjustDescriptor h s k d)"

subsection \<open>Construction\<close>

text \<open>
  The constructor, lines 65 to 103, for an options object: the defaults extended by the
  options, empty side tables, the initial key policy, \<^verbatim>\<open>add(descriptor)\<close>, and then the key
  settings of the options where the descriptor gave none.
\<close>

definition initial :: "jsval table \<Rightarrow> schema" where
  "initial opts =
     \<lparr>options = fold (\<lambda>(k, v) t. put t k v) opts
                   [(str ''strict'', Boolean True), (str ''dotNotation'', Boolean True)],
      descriptor = [], methods = [], statics = [], hooks = [], refs = [], indexes = [],
      key = \<lparr>docKeyKey = [], prefix = Null, suffix = Null, generate = True,
             dynamicKey = Undefined\<rparr>\<rparr>"

definition applyKeyOptions :: "schema \<Rightarrow> schema" where
  "applyKeyOptions s =
     (let s1 = (if \<not> truthy (prefix (key s)) \<and> isString (read (options s) (str ''keyPrefix''))
                then s\<lparr>key := (key s)\<lparr>prefix := read (options s) (str ''keyPrefix'')\<rparr>\<rparr> else s);
          s2 = (if truthy (read (options s1) (str ''dynamicKey''))
                then s1\<lparr>key := (key s1)\<lparr>dynamicKey := read (options s1) (str ''dynamicKey'')\<rparr>\<rparr> else s1)
      in if \<not> truthy (suffix (key s2)) \<and> isString (read (options s2) (str ''keySuffix''))
         then s2\<lparr>key := (key s2)\<lparr>suffix := read (options s2) (str ''keySuffix'')\<rparr>\<rparr> else s2)"

definition Schema :: "host \<Rightarrow> jsval \<Rightarrow> jsval table \<Rightarrow> completion" where
  "Schema h d opts =
     (case add h (initial opts) d Undefined of
        Throw e s \<Rightarrow> Throw e s
      | Normal s \<Rightarrow> Normal (applyKeyOptions s))"

subsection \<open>Extending a schema\<close>

text \<open>
  \<^verbatim>\<open>_cloneProp(other, prop, add)\<close>, lines 506 to 519. With \<^verbatim>\<open>add\<close> the property is the
  descriptor, and each entry goes through \<^verbatim>\<open>this.add\<close>; without it the entry is assigned.
  An entry is taken when \<^verbatim>\<open>!this[prop][p]\<close>. \<^verbatim>\<open>clone\<close> copies a value, which leaves it the
  same value here.
\<close>

fun cloneDescriptor :: "host \<Rightarrow> jsval table \<Rightarrow> schema \<Rightarrow> completion" where
  "cloneDescriptor h [] s = Normal s"
| "cloneDescriptor h ((p, d) # r) s =
     (if \<not> truthy (read (descriptor s) p) then
        (case add h s (Str p) d of
           Throw e s' \<Rightarrow> Throw e s'
         | Normal s' \<Rightarrow> cloneDescriptor h r s')
      else cloneDescriptor h r s)"

definition cloneTable :: "jsval table \<Rightarrow> jsval table \<Rightarrow> jsval table" where
  "cloneTable theirs ours =
     fold (\<lambda>(p, v) t. if \<not> truthy (read t p) then put t p v else t) theirs ours"

text \<open>The loop over \<^verbatim>\<open>other.options\<close>, lines 533 to 545.\<close>

definition extendOption :: "host \<Rightarrow> jsstring \<times> jsval \<Rightarrow> schema \<Rightarrow> schema" where
  "extendOption h kv s =
     (let ours = get_schema s (fst kv); theirs = snd kv
      in if ours = Undefined then set_schema s (fst kv) theirs
         else if isPlainObject ours \<and> isPlainObject theirs
           then set_schema s (fst kv) (lodash_merge h theirs ours)
         else s)"

text \<open>The loop over \<^verbatim>\<open>_.values(other.hooks)\<close>, lines 547 to 551.\<close>

definition extendHook :: "jsstring \<times> hook_entry \<Rightarrow> schema \<Rightarrow> schema" where
  "extendHook ke s = fold (\<lambda>fn s'. hook_schema s' (hook (snd ke)) (hname (snd ke)) fn) (fns (snd ke)) s"

text \<open>
  \<^verbatim>\<open>extend(other)\<close>, lines 526 to 555. The argument is a \<^verbatim>\<open>Schema\<close> instance or any other
  value; only the first passes \<^verbatim>\<open>other && other instanceof Schema\<close>.
\<close>

datatype argument = Instance schema | Value jsval

definition extend :: "host \<Rightarrow> schema \<Rightarrow> argument \<Rightarrow> completion" where
  "extend h s other =
     (case other of
        Instance b \<Rightarrow>
          (case cloneDescriptor h (descriptor b) s of
             Throw e s' \<Rightarrow> Throw e s'
           | Normal s1 \<Rightarrow>
               let s2 = s1\<lparr>statics := cloneTable (statics b) (statics s1)\<rparr>;
                   s3 = s2\<lparr>methods := cloneTable (methods b) (methods s2)\<rparr>;
                   s4 = fold (extendOption h) (options b) s3
               in Normal (fold extendHook (hooks b) s4))
      | Value v \<Rightarrow> Normal s)"

section \<open>The key policy in words\<close>

text \<open>
  What \<^verbatim>\<open>_applyDocumentKey\<close> refuses: a key property that is an index, or a reference, or
  has a type other than the four it allows.
\<close>

definition keyConflict :: "jsval \<Rightarrow> bool" where
  "keyConflict d =
     (isKeyProperty d
      \<and> (field d ''index'' = Boolean True \<or> truthy (field d ''ref'')
         \<or> (truthy (field d ''type'') \<and> \<not> keyTypeAllowed (field d ''type''))))"

text \<open>
  A descriptor declares a key when one of its properties is a key property; the key
  policy names a property when \<^verbatim>\<open>docKeyKey\<close> is an own property of the descriptor.
\<close>

definition declaresKey :: "jsval table \<Rightarrow> bool" where
  "declaresKey t = list_ex (\<lambda>(p, d). isKeyProperty d) t"

definition declaresKeyNamed :: "jsstring \<Rightarrow> jsval table \<Rightarrow> bool" where
  "declaresKeyNamed n t = list_ex (\<lambda>(p, d). p = n \<and> isKeyProperty d) t"

definition keyNamed :: "schema \<Rightarrow> bool" where
  "keyNamed s = (own (descriptor s) (docKeyKey (key s)) \<noteq> None)"

section \<open>A sample environment\<close>

text \<open>
  The theorems below hold for every \<open>host\<close>. To run the class on concrete schemas they are
  instantiated with the following one: a caller's function that puts a tenant in front of a
  key, the ASCII case mappings, a singular form that drops a final \<^verbatim>\<open>s\<close>, a shallow merge,
  and a fixed text of 32 hexadecimal digits that stands for the digest.
\<close>

definition sample_call :: "jsfun \<Rightarrow> jsval list \<Rightarrow> error + jsval" where
  "sample_call f args =
     (case f of
        UserFn n \<Rightarrow>
          (case args of
             Str k # r \<Rightarrow> Inr (Str (str ''t1::'' @ k))
           | _ \<Rightarrow> Inr (Str (str ''t1::'')))
      | _ \<Rightarrow> Inr Undefined)"

definition ascii_upper :: "jsstring \<Rightarrow> jsstring" where
  "ascii_upper s = map (\<lambda>c. if 0x61 \<le> c \<and> c \<le> 0x7A then c - 0x20 else c) s"

definition ascii_lower :: "jsstring \<Rightarrow> jsstring" where
  "ascii_lower s = map (\<lambda>c. if 0x41 \<le> c \<and> c \<le> 0x5A then c + 0x20 else c) s"

definition sample_digest :: "jsstring \<Rightarrow> jsstring" where
  "sample_digest v = replicate 32 0x30"

definition sample_singularize :: "jsval \<Rightarrow> error + jsstring" where
  "sample_singularize v =
     (case v of
        Str s \<Rightarrow> Inr (if 2 \<le> length s \<and> last s = 0x73 then butlast s else s)
      | _ \<Rightarrow> Inl (TypeError ''Cannot read property toLowerCase of undefined''))"

definition sample_merge :: "jsval \<Rightarrow> jsval \<Rightarrow> jsval" where
  "sample_merge dest src =
     (case (dest, src) of
        (Obj a, Obj b) \<Rightarrow> Obj (fold (\<lambda>(k, v) t. put t k v) b a)
      | _ \<Rightarrow> dest)"

text \<open>
  Modelled from the spec: \<^verbatim>\<open>normalize.js\<close> is not among the sources. Section 4.1 of the
  specification: a type shorthand becomes a descriptor with that type, a full descriptor
  object keeps its fields, a nested mapping and an array wrapper are normalized inside, the
  type is always explicit, and an unknown one is \<^verbatim>\<open>'any'\<close>.
\<close>

definition typeAlias :: "jsval \<Rightarrow> jsval" where
  "typeAlias t =
     (case t of
        Fn StringFn \<Rightarrow> Str (str ''string'')
      | Fn NumberFn \<Rightarrow> Str (str ''number'')
      | Fn ObjectFn \<Rightarrow> Str (str ''object'')
      | Str a \<Rightarrow> Str a
      | _ \<Rightarrow> Str (str ''any''))"

fun normalize :: "jsval \<Rightarrow> jsval" where
  "normalize (Obj ps) =
     (case map_of ps (str ''type'') of
        Some t \<Rightarrow> Obj (AList.update (str ''type'') (typeAlias t) ps)
      | None \<Rightarrow> Obj [(str ''type'', Str (str ''object'')),
                      (str ''objectType'', Obj (map (\<lambda>(k, v). (k, normalize v)) ps))])"
| "normalize (Arr xs) =
     Obj [(str ''type'', Str (str ''array'')), (str ''arrayType'', Arr (map normalize xs))]"
| "normalize v = Obj [(str ''type'', typeAlias v)]"

text \<open>
  Modelled from the spec: \<^verbatim>\<open>schema.utils.js\<close> is not among the sources. Sections 4.2 and 4.3
  of the specification: the references are the properties that declare a \<^verbatim>\<open>ref\<close>, the
  declared indexes are the properties flagged \<^verbatim>\<open>index: true\<close>, each a single-property
  index; the name of a compound index joins its components. The samples look at the top
  level of the descriptor.
\<close>

definition sample_getRefs :: "jsval \<Rightarrow> (jsstring \<times> jsval) list" where
  "sample_getRefs d =
     (case d of Obj ps \<Rightarrow> filter (\<lambda>(k, v). truthy (field v ''ref'')) ps | _ \<Rightarrow> [])"

definition sample_getIndexes :: "jsval \<Rightarrow> jsval \<Rightarrow> index_data list" where
  "sample_getIndexes d k =
     (case d of
        Obj ps \<Rightarrow>
          map (\<lambda>(p, v). \<lparr>path = Single p, name = p, indexType = str ''single'', compound = False,
                          refKeyCase = None\<rparr>)
            (filter (\<lambda>(p, v). field v ''index'' = Boolean True) ps)
      | _ \<Rightarrow> [])"

fun sample_getIndexName :: "jsstring list \<Rightarrow> jsstring" where
  "sample_getIndexName [] = []"
| "sample_getIndexName [p] = p"
| "sample_getIndexName (p # q # r) = p @ str ''And'' @ sample_getIndexName (q # r)"

definition sample_host :: host where
  "sample_host =
     \<lparr>call = sample_call,
      objectToString = (\<lambda>v. str ''[object Object]''),
      toUpperCase = ascii_upper,
      toLowerCase = ascii_lower,
      md5_hex = sample_digest,
      inflection_singularize = sample_singularize,
      lodash_merge = sample_merge,
      normalizeProperties = (\<lambda>s d k. normalize d),
      schemaUtils_getRefs = sample_getRefs,
      schemaUtils_getIndexes = sample_getIndexes,
      schemaUtils_getIndexName = sample_getIndexName\<rparr>"

text \<open>The schema an outcome leaves behind.\<close>

fun schema_of :: "completion \<Rightarrow> schema" where
  "schema_of (Normal s) = s"
| "schema_of (Throw e s) = s"

fun thrown :: "completion \<Rightarrow> error option" where
  "thrown (Normal s) = None"
| "thrown (Throw e s) = Some e"

text \<open>
  \<^verbatim>\<open>new Schema({ name: String }, { keyPrefix: 'user::' })\<close>, and the same schema with the
  dynamic key function \<^verbatim>\<open>k => 't1::' + k\<close>.
\<close>

definition user_schema :: schema where
  "user_schema =
     schema_of (Schema sample_host (Obj [(str ''name'', Fn StringFn)])
       [(str ''keyPrefix'', Str (str ''user::''))])"

definition tenant_schema :: schema where
  "tenant_schema =
     schema_of (Schema sample_host (Obj [(str ''name'', Fn StringFn)])
       [(str ''keyPrefix'', Str (str ''user::'')), (str ''dynamicKey'', Fn (UserFn 0))])"

text \<open>
  \<^verbatim>\<open>new Schema({ email: String }, { refIndexKeyPrefix: '$_ref_by_', delimiter: '_' })\<close>
  with \<^verbatim>\<open>index('email', { refKeyCase: 'lower' })\<close>.
\<close>

definition ref_schema :: schema where
  "ref_schema =
     schema_of (index sample_host
       (schema_of (Schema sample_host (Obj [(str ''email'', Fn StringFn)])
          [(str ''refIndexKeyPrefix'', Str (str ''$_ref_by_'')), (str ''delimiter'', Str (str ''_''))]))
       (Single (str ''email''))
       \<lparr>opt_indexName = None, opt_indexType = None, opt_refKeyCase = Some (str ''lower'')\<rparr>)"

text \<open>
  \<^verbatim>\<open>new Schema({ name: String })\<close>, and the three key descriptors of section 8 of the
  specification.
\<close>

definition name_schema :: schema where
  "name_schema = schema_of (Schema sample_host (Obj [(str ''name'', Fn StringFn)]) [])"

definition index_key_descriptor :: jsval where
  "index_key_descriptor =
     Obj [(str ''type'', Fn StringFn), (str ''key'', Boolean True), (str ''index'', Boolean True)]"

definition ref_key_descriptor :: jsval where
  "ref_key_descriptor =
     Obj [(str ''type'', Fn StringFn), (str ''key'', Boolean True), (str ''ref'', Str (str ''Other''))]"

definition object_key_descriptor :: jsval where
  "object_key_descriptor = Obj [(str ''type'', Fn ObjectFn), (str ''key'', Boolean True)]"

text \<open>
  Two schemas with the static \<^verbatim>\<open>DEBUG\<close>, set by \<^verbatim>\<open>static('DEBUG', false)\<close> on the one and by
  \<^verbatim>\<open>static('DEBUG', true)\<close> on the other; a schema with the method \<^verbatim>\<open>foo\<close>, and one with
  another \<^verbatim>\<open>foo\<close> and a method \<^verbatim>\<open>bar\<close>.
\<close>

definition quiet_schema :: schema where
  "quiet_schema = schema_of (static name_schema (Str (str ''DEBUG'')) (Boolean False))"

definition verbose_schema :: schema where
  "verbose_schema = schema_of (static name_schema (Str (str ''DEBUG'')) (Boolean True))"

definition foo_schema :: schema where
  "foo_schema = schema_of (method_schema name_schema (Str (str ''foo'')) (Fn (UserFn 1)))"

definition foo_bar_schema :: schema where
  "foo_bar_schema =
     schema_of (method_schema name_schema
       (Obj [(str ''foo'', Fn (UserFn 2)), (str ''bar'', Fn (UserFn 3))]) Undefined)"

section \<open>Properties\<close>

subsection \<open>The key pattern\<close>

lemma rx_lit: "rx_test [Lit x] s = (s = x)"
  by (auto simp: take_all_iff)

lemma rx_dotstar_lit:
  "rx_test [DotStar, Lit x] s = (\<exists>m. s = m @ x \<and> list_all (\<lambda>c. \<not> lineTerminator c) m)"
proof (induction s)
  case Nil
  then show ?case by (auto simp: rx_lit)
next
  case (Cons c cs)
  show ?case
  proof
    assume "rx_test [DotStar, Lit x] (c # cs)"
    then consider "c # cs = x" | "\<not> lineTerminator c" "rx_test [DotStar, Lit x] cs"
      by (auto simp: rx_lit)
    then show "\<exists>m. c # cs = m @ x \<and> list_all (\<lambda>c. \<not> lineTerminator c) m"
    proof cases
      case 1
      then have "c # cs = [] @ x \<and> list_all (\<lambda>c. \<not> lineTerminator c) []" by simp
      then show ?thesis by blast
    next
      case 2
      with Cons.IH obtain m where "cs = m @ x" "list_all (\<lambda>c. \<not> lineTerminator c) m" by auto
      with 2 have "c # cs = (c # m) @ x \<and> list_all (\<lambda>c. \<not> lineTerminator c) (c # m)" by simp
      then show ?thesis by blast
    qed
  next
    assume "\<exists>m. c # cs = m @ x \<and> list_all (\<lambda>c. \<not> lineTerminator c) m"
    then obtain m where m: "c # cs = m @ x" "list_all (\<lambda>c. \<not> lineTerminator c) m" by blast
    show "rx_test [DotStar, Lit x] (c # cs)"
    proof (cases m)
      case Nil
      with m have "rx_test [Lit x] (c # cs)" by (simp add: rx_lit)
      then show ?thesis using rx_test.simps(4)[of "[Lit x]" c cs] by blast
    next
      case (Cons a m')
      with m have "cs = m' @ x" "list_all (\<lambda>c. \<not> lineTerminator c) m'" "\<not> lineTerminator c" by auto
      with Cons.IH show ?thesis by auto
    qed
  qed
qed

text \<open>The pattern matches the keys that are the prefix, a line, and the suffix.\<close>

lemma rx_key_pattern:
  "rx_test [Lit p, DotStar, Lit x] s =
     (\<exists>m. s = p @ m @ x \<and> list_all (\<lambda>c. \<not> lineTerminator c) m)"
proof -
  have "rx_test [Lit p, DotStar, Lit x] s =
          (take (length p) s = p \<and> rx_test [DotStar, Lit x] (drop (length p) s))"
    by simp
  also have "\<dots> = (\<exists>m. s = p @ m @ x \<and> list_all (\<lambda>c. \<not> lineTerminator c) m)"
    unfolding rx_dotstar_lit
    by (metis append_eq_conv_conj append_take_drop_id)
  finally show ?thesis .
qed

lemma expanded_key_matches:
  "list_all (\<lambda>c. \<not> lineTerminator c) i \<Longrightarrow> key_test s (key_prefix s @ i @ key_suffix s)"
  unfolding key_test_def rx_key_pattern by blast

lemma strip_expanded: "replace_end x (replace_start p (p @ m @ x)) = m"
  by (simp add: replace_start_def replace_end_def)

lemma dynamic_absent: "\<not> isFunction (dynamicKey (key s)) \<Longrightarrow> dynamic h s k = Inr (Str k)"
  by (cases "dynamicKey (key s)") (simp_all add: dynamic_def)

subsection \<open>The sample schemas\<close>

lemma user_schema_eq:
  "user_schema =
     \<lparr>options = [(str ''strict'', Boolean True), (str ''dotNotation'', Boolean True),
                 (str ''keyPrefix'', Str (str ''user::''))],
      descriptor = [(str ''name'', Obj [(str ''type'', Str (str ''string''))]),
                    (str ''id'', Obj [(str ''type'', Str (str ''string''))])],
      methods = [], statics = [], hooks = [], refs = [], indexes = [],
      key = \<lparr>docKeyKey = str ''id'', prefix = Str (str ''user::''), suffix = Null,
             generate = True, dynamicKey = Undefined\<rparr>\<rparr>"
  by code_simp

lemma tenant_schema_eq:
  "tenant_schema =
     \<lparr>options = [(str ''strict'', Boolean True), (str ''dotNotation'', Boolean True),
                 (str ''keyPrefix'', Str (str ''user::'')), (str ''dynamicKey'', Fn (UserFn 0))],
      descriptor = [(str ''name'', Obj [(str ''type'', Str (str ''string''))]),
                    (str ''id'', Obj [(str ''type'', Str (str ''string''))])],
      methods = [], statics = [], hooks = [], refs = [], indexes = [],
      key = \<lparr>docKeyKey = str ''id'', prefix = Str (str ''user::''), suffix = Null,
             generate = True, dynamicKey = Fn (UserFn 0)\<rparr>\<rparr>"
  by code_simp

subsection \<open>Expanding a document key\<close>

text \<open>
  Claim C2, as the code has it: for a schema without a dynamic key function and a string
  \<open>i\<close> without line terminators, \<^verbatim>\<open>getDocumentKeyValue(i, true)\<close> is a string \<open>k\<close>, and
  expanding \<open>k\<close> again gives \<open>k\<close>.
\<close>

theorem getDocumentKeyValue_full_idempotent:
  assumes "\<not> isFunction (dynamicKey (key s))"
    and "list_all (\<lambda>c. \<not> lineTerminator c) i"
  shows "\<exists>k. getDocumentKeyValue h s (Str i) (Boolean True) = Inr (Str k)
            \<and> getDocumentKeyValue h s (Str k) (Boolean True) = Inr (Str k)"
proof (cases "key_test s i")
  case True
  with assms(1) have "getDocumentKeyValue h s (Str i) (Boolean True) = Inr (Str i)"
    by (simp add: getDocumentKeyValue_def dynamic_absent)
  then show ?thesis by blast
next
  case False
  let ?k = "key_prefix s @ i @ key_suffix s"
  from False assms(1) have "getDocumentKeyValue h s (Str i) (Boolean True) = Inr (Str ?k)"
    by (simp add: getDocumentKeyValue_def dynamic_absent)
  moreover from assms have "getDocumentKeyValue h s (Str ?k) (Boolean True) = Inr (Str ?k)"
    by (simp add: getDocumentKeyValue_def dynamic_absent expanded_key_matches)
  ultimately show ?thesis by blast
qed

text \<open>The theorem at \<^verbatim>\<open>'abc'\<close> and the schema with the key prefix \<^verbatim>\<open>'user::'\<close>.\<close>

theorem getDocumentKeyValue_full_idempotent_witness:
  "\<not> isFunction (dynamicKey (key user_schema))
   \<and> list_all (\<lambda>c. \<not> lineTerminator c) (str ''abc'')
   \<and> getDocumentKeyValue sample_host user_schema (Str (str ''abc'')) (Boolean True)
       = Inr (Str (str ''user::abc''))
   \<and> getDocumentKeyValue sample_host user_schema (Str (str ''user::abc'')) (Boolean True)
       = Inr (Str (str ''user::abc''))"
proof -
  have a: "\<not> isFunction (dynamicKey (key user_schema))"
    by (simp add: user_schema_eq)
  have b: "list_all (\<lambda>c. \<not> lineTerminator c) (str ''abc'')"
    by (simp add: str_def lineTerminator_def)
  have c: "getDocumentKeyValue sample_host user_schema (Str (str ''abc'')) (Boolean True)
       = Inr (Str (str ''user::abc''))"
    by (simp add: getDocumentKeyValue_def key_test_def key_prefix_def key_suffix_def dynamic_def
        user_schema_eq str_def)
  from getDocumentKeyValue_full_idempotent[OF a b, of sample_host] c a b
  show ?thesis by auto
qed

text \<open>
  Claim C2 as stated fails where a dynamic key function is configured: the function gets
  the expanded key and its result is the key, so with \<^verbatim>\<open>k => 't1::' + k\<close> the key of
  \<^verbatim>\<open>'a'\<close> is \<^verbatim>\<open>'t1::user::a'\<close>, which expands to another key.
\<close>

theorem getDocumentKeyValue_full_dynamic_counterexample:
  "getDocumentKeyValue sample_host tenant_schema (Str (str ''a'')) (Boolean True)
     = Inr (Str (str ''t1::user::a''))
   \<and> getDocumentKeyValue sample_host tenant_schema (Str (str ''t1::user::a'')) (Boolean True)
     = Inr (Str (str ''t1::user::t1::user::a''))"
  by (simp add: getDocumentKeyValue_def key_test_def key_prefix_def key_suffix_def dynamic_def
        tenant_schema_eq str_def sample_host_def sample_call_def)

text \<open>
  The dot of the key pattern matches no line terminator, so a key with a line break in it
  is expanded a second time, whatever the host.
\<close>

lemma getDocumentKeyValue_full_line_break:
  "getDocumentKeyValue h user_schema (Str (str ''a'' @ [0x0A] @ str ''b'')) (Boolean True)
     = Inr (Str (str ''user::a'' @ [0x0A] @ str ''b''))
   \<and> getDocumentKeyValue h user_schema (Str (str ''user::a'' @ [0x0A] @ str ''b'')) (Boolean True)
     = Inr (Str (str ''user::user::a'' @ [0x0A] @ str ''b''))"
  by (simp add: getDocumentKeyValue_def key_test_def key_prefix_def key_suffix_def dynamic_def
        user_schema_eq str_def lineTerminator_def)

subsection \<open>Stripping a document key\<close>

text \<open>
  Claim C8, as the code has it: for a schema without a dynamic key function and a string
  \<open>i\<close> without line terminators, stripping the expanded key of \<open>i\<close> gives what stripping
  \<open>i\<close> gives; without \<^verbatim>\<open>full\<close> the prefix and the suffix around \<open>i\<close> are removed; and a
  value that is not a string is returned as it is.
\<close>

theorem getDocumentKeyValue_round_trip:
  assumes "\<not> isFunction (dynamicKey (key s))"
    and "list_all (\<lambda>c. \<not> lineTerminator c) i"
  shows "(\<exists>k. getDocumentKeyValue h s (Str i) (Boolean True) = Inr (Str k)
             \<and> getDocumentKeyValue h s (Str k) (Boolean False)
                 = getDocumentKeyValue h s (Str i) (Boolean False))
         \<and> getDocumentKeyValue h s (Str (key_prefix s @ i @ key_suffix s)) (Boolean False)
             = Inr (Str i)
         \<and> (\<not> isString v \<longrightarrow> getDocumentKeyValue h s v full = Inr v)"
proof -
  let ?k = "key_prefix s @ i @ key_suffix s"
  have strip: "getDocumentKeyValue h s (Str ?k) (Boolean False) = Inr (Str i)"
    using assms(2) by (simp add: getDocumentKeyValue_def expanded_key_matches strip_expanded)
  have first: "\<exists>k. getDocumentKeyValue h s (Str i) (Boolean True) = Inr (Str k)
             \<and> getDocumentKeyValue h s (Str k) (Boolean False)
                 = getDocumentKeyValue h s (Str i) (Boolean False)"
  proof (cases "key_test s i")
    case True
    with assms(1) have "getDocumentKeyValue h s (Str i) (Boolean True) = Inr (Str i)"
      by (simp add: getDocumentKeyValue_def dynamic_absent)
    then show ?thesis by blast
  next
    case False
    with assms(1) have "getDocumentKeyValue h s (Str i) (Boolean True) = Inr (Str ?k)"
      by (simp add: getDocumentKeyValue_def dynamic_absent)
    moreover from False have "getDocumentKeyValue h s (Str i) (Boolean False) = Inr (Str i)"
      by (simp add: getDocumentKeyValue_def)
    ultimately show ?thesis using strip by auto
  qed
  have other: "\<not> isString v \<longrightarrow> getDocumentKeyValue h s v full = Inr v"
    by (cases v) (simp_all add: getDocumentKeyValue_def)
  from first strip other show ?thesis by blast
qed

text \<open>The theorem at \<^verbatim>\<open>'abc'\<close>, the number 7 and the schema with the key prefix \<^verbatim>\<open>'user::'\<close>.\<close>

theorem getDocumentKeyValue_round_trip_witness:
  "\<not> isFunction (dynamicKey (key user_schema))
   \<and> list_all (\<lambda>c. \<not> lineTerminator c) (str ''abc'')
   \<and> \<not> isString (Num 7)
   \<and> getDocumentKeyValue sample_host user_schema (Str (str ''abc'')) (Boolean True)
       = Inr (Str (str ''user::abc''))
   \<and> getDocumentKeyValue sample_host user_schema (Str (str ''user::abc'')) (Boolean False)
       = Inr (Str (str ''abc''))
   \<and> getDocumentKeyValue sample_host user_schema (Str (str ''abc'')) (Boolean False)
       = Inr (Str (str ''abc''))
   \<and> getDocumentKeyValue sample_host user_schema (Num 7) (Boolean False) = Inr (Num 7)"
proof -
  have a: "\<not> isFunction (dynamicKey (key user_schema))"
    by (simp add: user_schema_eq)
  have b: "list_all (\<lambda>c. \<not> lineTerminator c) (str ''abc'')"
    by (simp add: str_def lineTerminator_def)
  have p: "key_prefix user_schema = str ''user::''" "key_suffix user_schema = []"
    "dynamicKey (key user_schema) = Undefined"
    by (simp_all add: key_prefix_def key_suffix_def user_schema_eq)
  have c: "getDocumentKeyValue sample_host user_schema (Str (str ''abc'')) (Boolean True)
       = Inr (Str (str ''user::abc''))"
    by (simp add: getDocumentKeyValue_def key_test_def p dynamic_def str_def)
  have d: "getDocumentKeyValue sample_host user_schema (Str (str ''abc'')) (Boolean False)
       = Inr (Str (str ''abc''))"
    by (simp add: getDocumentKeyValue_def key_test_def p str_def)
  have e: "str ''user::'' @ str ''abc'' @ [] = str ''user::abc''"
    by (simp add: str_def)
  from getDocumentKeyValue_round_trip[OF a b, of sample_host "Num 7" "Boolean False"]
  show ?thesis using a b c d by (simp add: p e)
qed

text \<open>
  Claim C8 as stated fails where a dynamic key function is configured: the expanded key of
  \<^verbatim>\<open>'a'\<close> is \<^verbatim>\<open>'t1::user::a'\<close>, which does not start with the prefix and is left as it is,
  while \<^verbatim>\<open>'a'\<close> strips to itself.
\<close>

theorem getDocumentKeyValue_round_trip_dynamic_counterexample:
  "getDocumentKeyValue sample_host tenant_schema (Str (str ''a'')) (Boolean True)
     = Inr (Str (str ''t1::user::a''))
   \<and> getDocumentKeyValue sample_host tenant_schema (Str (str ''t1::user::a'')) (Boolean False)
     = Inr (Str (str ''t1::user::a''))
   \<and> getDocumentKeyValue sample_host tenant_schema (Str (str ''a'')) (Boolean False)
     = Inr (Str (str ''a''))"
  by (simp add: getDocumentKeyValue_def key_test_def key_prefix_def key_suffix_def dynamic_def
        tenant_schema_eq str_def sample_host_def sample_call_def)

text \<open>A key with a line break in it keeps its prefix when it is stripped.\<close>

lemma getDocumentKeyValue_round_trip_line_break:
  "getDocumentKeyValue h user_schema (Str (str ''a'' @ [0x0A] @ str ''b'')) (Boolean True)
     = Inr (Str (str ''user::a'' @ [0x0A] @ str ''b''))
   \<and> getDocumentKeyValue h user_schema (Str (str ''user::a'' @ [0x0A] @ str ''b'')) (Boolean False)
     = Inr (Str (str ''user::a'' @ [0x0A] @ str ''b''))
   \<and> getDocumentKeyValue h user_schema (Str (str ''a'' @ [0x0A] @ str ''b'')) (Boolean False)
     = Inr (Str (str ''a'' @ [0x0A] @ str ''b''))"
  by (simp add: getDocumentKeyValue_def key_test_def key_prefix_def key_suffix_def dynamic_def
        user_schema_eq str_def lineTerminator_def)

subsection \<open>Property tables\<close>

lemma own_put:
  "k \<noteq> str ''__proto__'' \<or> own t k \<noteq> None \<Longrightarrow>
     own (put t k v) k' = (if k' = k then Some v else own t k')"
  by (auto simp: own_def put_def update_conv')

lemma own_put_other: "k' \<noteq> k \<Longrightarrow> own (put t k v) k' = own t k'"
  by (auto simp: own_def put_def update_conv')

subsection \<open>Extending by something that is no schema\<close>

text \<open>
  Claim C10: for every schema \<open>s\<close> and every argument \<open>x\<close> that is not a \<^verbatim>\<open>Schema\<close>
  instance, \<^verbatim>\<open>s.extend(x)\<close> completes and returns \<open>s\<close> with every field as it was.
\<close>

theorem extend_other_value: "extend h s (Value x) = Normal s"
  by (simp add: extend_def)

text \<open>The theorem at \<^verbatim>\<open>null\<close>, \<^verbatim>\<open>undefined\<close> and the plain object \<^verbatim>\<open>{ methods: {} }\<close>.\<close>

theorem extend_other_value_witness:
  "extend sample_host user_schema (Value Null) = Normal user_schema
   \<and> extend sample_host user_schema (Value Undefined) = Normal user_schema
   \<and> extend sample_host user_schema (Value (Obj [(str ''methods'', Obj [])])) = Normal user_schema"
  using extend_other_value[of sample_host user_schema] by simp

subsection \<open>Compound indexes\<close>

text \<open>
  Claim C7: a call of \<^verbatim>\<open>index\<close> with an array of property names, whose index name (the
  explicit one, or the one inferred from the names) is \<open>n\<close>, completes, changes nothing but
  the table of indexes, changes no entry of that table but the one named \<open>n\<close>, and stores
  under \<open>n\<close> the entry with \<^verbatim>\<open>compound: true\<close> and the array as it was given as its path.
  The name \<^verbatim>\<open>__proto__\<close> is no property name of a table.
\<close>

theorem index_compound_keeps_path:
  assumes "indexNameFor h (Compound ps) opts = Inr n"
    and "n \<noteq> str ''__proto__''"
  shows "\<exists>s'. index h s (Compound ps) opts = Normal s'
           \<and> s' = s\<lparr>indexes := indexes s'\<rparr>
           \<and> own (indexes s') n =
               Some \<lparr>path = Compound ps, name = n,
                     indexType = (case given (opt_indexType opts) of Some t \<Rightarrow> t | None \<Rightarrow> str ''single''),
                     compound = True, refKeyCase = given (opt_refKeyCase opts)\<rparr>
           \<and> (\<forall>k. k \<noteq> n \<longrightarrow> own (indexes s') k = own (indexes s) k)"
  using assms by (simp add: index_def isCompound_def own_put own_put_other)

text \<open>
  The theorem at \<^verbatim>\<open>index(['email','userName'], {indexName: 'EmailAndUserName'})\<close> on a schema
  without indexes: the table of indexes is that one entry.
\<close>

theorem index_compound_keeps_path_witness:
  "indexNameFor sample_host (Compound [str ''email'', str ''userName''])
      \<lparr>opt_indexName = Some (str ''EmailAndUserName''), opt_indexType = None, opt_refKeyCase = None\<rparr>
     = Inr (str ''EmailAndUserName'')
   \<and> str ''EmailAndUserName'' \<noteq> str ''__proto__''
   \<and> index sample_host user_schema (Compound [str ''email'', str ''userName''])
        \<lparr>opt_indexName = Some (str ''EmailAndUserName''), opt_indexType = None, opt_refKeyCase = None\<rparr>
     = Normal (user_schema\<lparr>indexes :=
         [(str ''EmailAndUserName'',
           \<lparr>path = Compound [str ''email'', str ''userName''], name = str ''EmailAndUserName'',
            indexType = str ''single'', compound = True, refKeyCase = None\<rparr>)]\<rparr>)"
proof -
  let ?o = "\<lparr>opt_indexName = Some (str ''EmailAndUserName''), opt_indexType = None, opt_refKeyCase = None\<rparr>"
  have a: "indexNameFor sample_host (Compound [str ''email'', str ''userName'']) ?o
     = Inr (str ''EmailAndUserName'')"
    by (simp add: indexNameFor_def given_def str_def)
  have b: "str ''EmailAndUserName'' \<noteq> str ''__proto__''"
    by (simp add: str_def)
  have c: "indexes user_schema = []"
    by (simp add: user_schema_eq)
  have d: "index sample_host user_schema (Compound [str ''email'', str ''userName'']) ?o
     = Normal (user_schema\<lparr>indexes :=
         [(str ''EmailAndUserName'',
           \<lparr>path = Compound [str ''email'', str ''userName''], name = str ''EmailAndUserName'',
            indexType = str ''single'', compound = True, refKeyCase = None\<rparr>)]\<rparr>)"
    using a b by (simp add: index_def c put_def own_def isCompound_def given_def)
  from index_compound_keeps_path[OF a b, of user_schema] a b d show ?thesis by simp
qed

subsection \<open>Invalid arguments\<close>

text \<open>
  Claim C9, as the code has it. \<^verbatim>\<open>method\<close> throws a \<^verbatim>\<open>TypeError\<close> for a name that is
  neither a string nor a plain object, and for a string name with a handler that is no
  function. \<^verbatim>\<open>static\<close> throws for a name that is neither a string nor a plain object, and
  stores any value under a string name. \<^verbatim>\<open>virtual\<close> throws for a name that is no string
  and, unless it is called with a plain object as second argument and no third one, for
  options that are no plain object and for options without a \<^verbatim>\<open>get\<close> function. Where one of
  them throws so, the schema is as it was.
\<close>

theorem invalid_arguments_throw:
  "(\<not> isString nm \<and> \<not> isPlainObject nm \<longrightarrow>
      method_schema s nm f
        = Throw (TypeError ''Schema#method expects a string identifier as a function name'') s
      \<and> static s nm f
        = Throw (TypeError ''Schema#statics expects a string identifier as a function name'') s)
   \<and> (isString nm \<and> \<not> isFunction f \<longrightarrow>
      method_schema s nm f = Throw (TypeError ''Schema#method expects a function as a handle'') s)
   \<and> static s (Str n) f = Normal (s\<lparr>statics := put (statics s) n f\<rparr>)
   \<and> (\<not> isString nm \<longrightarrow>
      virtual s nm ty opts
        = Throw (TypeError ''Schema#virtual expects a string identifier as a property name'') s)
   \<and> (isString nm \<and> \<not> (isPlainObject ty \<and> \<not> truthy opts) \<and> \<not> isPlainObject opts \<longrightarrow>
      virtual s nm ty opts = Throw (TypeError ''Schema#virtual expects an object as a handle'') s)
   \<and> (isString nm \<and> \<not> (isPlainObject ty \<and> \<not> truthy opts) \<and> isPlainObject opts
        \<and> \<not> isFunction (field opts ''get'') \<longrightarrow>
      virtual s nm ty opts
        = Throw (TypeError ''Schema#virtual expects an object with a get function'') s)"
  by (cases nm) (auto simp: method_schema_def method_named_def static_def static_named_def virtual_def)

text \<open>The theorem at one call for each of its cases, on the sample schema.\<close>

theorem invalid_arguments_throw_witness:
  "method_schema user_schema (Num 5) (Fn (UserFn 1))
     = Throw (TypeError ''Schema#method expects a string identifier as a function name'') user_schema
   \<and> static user_schema (Num 5) (Fn (UserFn 1))
     = Throw (TypeError ''Schema#statics expects a string identifier as a function name'') user_schema
   \<and> method_schema user_schema (Str (str ''getFullName'')) (Str (str ''bar''))
     = Throw (TypeError ''Schema#method expects a function as a handle'') user_schema
   \<and> virtual user_schema (Num 5) (Fn StringFn) (Obj [(str ''get'', Fn (UserFn 1))])
     = Throw (TypeError ''Schema#virtual expects a string identifier as a property name'') user_schema
   \<and> virtual user_schema (Str (str ''fullName'')) (Fn StringFn) (Str (str ''bar''))
     = Throw (TypeError ''Schema#virtual expects an object as a handle'') user_schema
   \<and> virtual user_schema (Str (str ''fullName'')) (Fn StringFn) (Obj [(str ''set'', Fn (UserFn 2))])
     = Throw (TypeError ''Schema#virtual expects an object with a get function'') user_schema"
proof -
  have g: "\<not> isFunction (field (Obj [(str ''set'', Fn (UserFn 2))]) ''get'')"
    by (simp add: field_def read_def own_def str_def objectPrototypeNames_def)
  show ?thesis
    using invalid_arguments_throw[where nm = "Num 5" and s = user_schema and f = "Fn (UserFn 1)"
            and ty = "Fn StringFn" and opts = "Obj [(str ''get'', Fn (UserFn 1))]"]
      invalid_arguments_throw[where nm = "Str (str ''getFullName'')" and s = user_schema
            and f = "Str (str ''bar'')"]
      invalid_arguments_throw[where nm = "Str (str ''fullName'')" and s = user_schema
            and ty = "Fn StringFn" and opts = "Str (str ''bar'')"]
      invalid_arguments_throw[where nm = "Str (str ''fullName'')" and s = user_schema
            and ty = "Fn StringFn" and opts = "Obj [(str ''set'', Fn (UserFn 2))]"] g
    by simp
qed

text \<open>
  Claim C9 as stated fails for \<^verbatim>\<open>static\<close> with a handler that is no function:
  \<^verbatim>\<open>static('FOO', 'bar')\<close>, the example of the method's own comment, completes and stores
  the property.
\<close>

theorem static_stores_any_value_counterexample:
  "static user_schema (Str (str ''FOO'')) (Str (str ''bar''))
     = Normal (user_schema\<lparr>statics := [(str ''FOO'', Str (str ''bar''))]\<rparr>)"
  by (simp add: static_def static_named_def user_schema_eq put_def own_def str_def)

text \<open>
  Two calls the theorem leaves out: \<^verbatim>\<open>virtual('full', {})\<close> takes the first branch, where
  the getter is not checked; and a map of methods is registered up to the entry that is
  refused.
\<close>

lemma virtual_two_arguments_without_getter:
  "virtual user_schema (Str (str ''full'')) (Obj []) Undefined
     = Normal (user_schema\<lparr>descriptor := descriptor user_schema @
         [(str ''full'', Obj [(str ''type'', Str (str ''any'')), (str ''virtual'', Boolean True),
            (str ''get'', Undefined), (str ''invisible'', Boolean True),
            (str ''readOnly'', Boolean True)])]\<rparr>)"
  by (simp add: virtual_def virtualType_def user_schema_eq put_def own_def str_def field_def read_def
      objectPrototypeNames_def)

lemma method_map_registers_before_throw:
  "method_schema user_schema (Obj [(str ''a'', Fn (UserFn 1)), (str ''b'', Str (str ''bar''))]) Undefined
     = Throw (TypeError ''Schema#method expects a function as a handle'')
         (user_schema\<lparr>methods := [(str ''a'', Fn (UserFn 1))]\<rparr>)"
  by (simp add: method_schema_def method_named_def user_schema_eq put_def own_def str_def)

subsection \<open>Inferred index names\<close>

text \<open>
  Claim C6 does not hold of the code: \<^verbatim>\<open>trailingDigitReg\<close> is \<^verbatim>\<open>^\d+$\<close>, which matches a
  name of digits alone, so \<^verbatim>\<open>index('item2')\<close> drops no digit. For every host and schema the
  index is registered under what \<^verbatim>\<open>inflection.singularize\<close> makes of \<^verbatim>\<open>'item2'\<close>.
\<close>

theorem index_single_keeps_digits:
  "index h s (Single (str ''item2'')) \<lparr>opt_indexName = None, opt_indexType = None, opt_refKeyCase = None\<rparr>
     = (case inflection_singularize h (Str (str ''item2'')) of
          Inl e \<Rightarrow> Throw e s
        | Inr n \<Rightarrow> Normal (s\<lparr>indexes := put (indexes s) n
            \<lparr>path = Single (str ''item2''), name = n, indexType = str ''single'',
             compound = False, refKeyCase = None\<rparr>\<rparr>))"
  by (simp add: index_def indexNameFor_def inferIndexName_def given_def trailingDigitReg_test_def
      isCompound_def str_def split: sum.split)

text \<open>With the sample host, whose singular form only drops a final \<^verbatim>\<open>s\<close>, that is \<^verbatim>\<open>item2\<close>.\<close>

theorem index_single_keeps_digits_witness:
  "index sample_host user_schema (Single (str ''item2''))
      \<lparr>opt_indexName = None, opt_indexType = None, opt_refKeyCase = None\<rparr>
     = Normal (user_schema\<lparr>indexes :=
         [(str ''item2'', \<lparr>path = Single (str ''item2''), name = str ''item2'',
            indexType = str ''single'', compound = False, refKeyCase = None\<rparr>)]\<rparr>)"
proof -
  have a: "inflection_singularize sample_host (Str (str ''item2'')) = Inr (str ''item2'')"
    by (simp add: sample_host_def sample_singularize_def str_def)
  have b: "put (indexes user_schema) (str ''item2'') v = [(str ''item2'', v)]" for v :: index_data
    by (simp add: user_schema_eq put_def own_def str_def)
  from index_single_keeps_digits[of sample_host user_schema] show ?thesis
    by (simp add: a b)
qed

text \<open>
  The second half of the claim holds: \<^verbatim>\<open>index('users')\<close> is registered under the singular
  form of \<^verbatim>\<open>'users'\<close>. And a name of digits alone is replaced by its digit before the last.
\<close>

lemma index_users:
  "inflection_singularize h (Str (str ''users'')) = Inr (str ''user'') \<Longrightarrow>
   index h s (Single (str ''users'')) \<lparr>opt_indexName = None, opt_indexType = None, opt_refKeyCase = None\<rparr>
     = Normal (s\<lparr>indexes := put (indexes s) (str ''user'')
            \<lparr>path = Single (str ''users''), name = str ''user'', indexType = str ''single'',
             compound = False, refKeyCase = None\<rparr>\<rparr>)"
  by (simp add: index_def indexNameFor_def inferIndexName_def given_def trailingDigitReg_test_def
      isCompound_def str_def)

lemma index_all_digits:
  "index h s (Single (str ''42'')) \<lparr>opt_indexName = None, opt_indexType = None, opt_refKeyCase = None\<rparr>
     = (case inflection_singularize h (Str (str ''4'')) of
          Inl e \<Rightarrow> Throw e s
        | Inr n \<Rightarrow> Normal (s\<lparr>indexes := put (indexes s) n
            \<lparr>path = Single (str ''42''), name = n, indexType = str ''single'',
             compound = False, refKeyCase = None\<rparr>\<rparr>))"
  by (simp add: index_def indexNameFor_def inferIndexName_def given_def trailingDigitReg_test_def
      isCompound_def str_def before_last_def split: sum.split)

subsection \<open>The document key of a descriptor\<close>

lemma own_put_any:
  "own (put t k v) k' =
     (if k' = k \<and> (k \<noteq> str ''__proto__'' \<or> own t k \<noteq> None) then Some v else own t k')"
  by (auto simp: own_def put_def update_conv')

lemma keys_put: "dom (own t) \<subseteq> dom (own (put t k v))"
  by (auto simp: own_put_any)

lemma keys_put_own: "own t k \<noteq> None \<Longrightarrow> dom (own (put t k v)) = dom (own t)"
  by (auto simp: own_put_any dom_def)

lemma keys_table: "dom (own t) = fst ` set t"
  by (simp add: own_def[abs_def] dom_map_of_conv_image_fst)

lemma applyKeyProperty_throw:
  "keyConflict d \<Longrightarrow> \<exists>m. applyKeyProperty h s p d = Throw (TypeError m) s"
  by (auto simp: keyConflict_def applyKeyProperty_def)

lemma applyKeyProperty_normal:
  assumes "applyKeyProperty h s p d = Normal s'"
  shows "docKeyKey (key s') = p"
    and "descriptor s' = put (descriptor s) p (normalizeProperties h (s'\<lparr>descriptor := descriptor s\<rparr>) d (Str p))"
    and "\<not> keyConflict d \<or> \<not> isKeyProperty d"
  using assms
  by (auto simp: applyKeyProperty_def Let_def keyConflict_def split: if_splits jsval.splits)

lemma applyKeyLoop_throw:
  "list_ex (\<lambda>(p, d). keyConflict d) ps \<Longrightarrow>
     \<exists>f m s'. applyKeyLoop h ps found s = (f, Throw (TypeError m) s')"
proof (induction ps arbitrary: found s)
  case Nil
  then show ?case by simp
next
  case (Cons a ps)
  obtain p d where a: "a = (p, d)" by (cases a)
  show ?case
  proof (cases "isKeyProperty d")
    case False
    with Cons a show ?thesis by (auto simp: keyConflict_def)
  next
    case True
    show ?thesis
    proof (cases "applyKeyProperty h s p d")
      case (Throw e s')
      obtain m where "e = TypeError m" by (cases e)
      with Throw True a show ?thesis by simp
    next
      case (Normal s')
      with applyKeyProperty_throw[of d h s p] have "\<not> keyConflict d" by auto
      with Cons.prems a have "list_ex (\<lambda>(p, d). keyConflict d) ps" by simp
      from Cons.IH[OF this] Normal True a show ?thesis by simp
    qed
  qed
qed

lemma applyDocumentKey_throw:
  "list_ex (\<lambda>(p, d). keyConflict d) (descriptor s) \<Longrightarrow>
     \<exists>m s'. applyDocumentKey h s = Throw (TypeError m) s'"
  using applyKeyLoop_throw[of "descriptor s" h False s]
  by (auto simp: applyDocumentKey_def)

lemma applyKeyLoop_normal:
  assumes "applyKeyLoop h ps found s = (f, Normal s')"
    and "fst ` set ps \<subseteq> dom (own (descriptor s))"
  shows "dom (own (descriptor s')) = dom (own (descriptor s))
         \<and> f = (found \<or> declaresKey ps)
         \<and> (declaresKey ps \<longrightarrow> declaresKeyNamed (docKeyKey (key s')) ps)
         \<and> (\<not> declaresKey ps \<longrightarrow> s' = s)"
  using assms
proof (induction ps arbitrary: found s)
  case Nil
  then show ?case by (simp add: declaresKey_def)
next
  case (Cons a ps)
  obtain p d where a: "a = (p, d)" by (cases a)
  show ?case
  proof (cases "isKeyProperty d")
    case False
    with Cons.prems a have "applyKeyLoop h ps found s = (f, Normal s')"
      and "fst ` set ps \<subseteq> dom (own (descriptor s))" by auto
    from Cons.IH[OF this] False a show ?thesis
      by (simp add: declaresKey_def declaresKeyNamed_def)
  next
    case True
    show ?thesis
    proof (cases "applyKeyProperty h s p d")
      case (Throw e s1)
      with Cons.prems True a show ?thesis by simp
    next
      case (Normal s1)
      from Cons.prems(2) a have pin: "own (descriptor s) p \<noteq> None"
        by auto
      from applyKeyProperty_normal[OF Normal] pin
      have k1: "docKeyKey (key s1) = p" and d1: "dom (own (descriptor s1)) = dom (own (descriptor s))"
        by (simp_all add: keys_put_own)
      from Cons.prems Normal True a have l: "applyKeyLoop h ps True s1 = (f, Normal s')" by simp
      from Cons.prems(2) d1 have sub: "fst ` set ps \<subseteq> dom (own (descriptor s1))" by auto
      from Cons.IH[OF l sub] have ih:
        "dom (own (descriptor s')) = dom (own (descriptor s1))" "f = True"
        "declaresKey ps \<longrightarrow> declaresKeyNamed (docKeyKey (key s')) ps"
        "\<not> declaresKey ps \<longrightarrow> s' = s1" by auto
      have "declaresKeyNamed (docKeyKey (key s')) (a # ps)"
      proof (cases "declaresKey ps")
        case True
        with ih show ?thesis by (simp add: declaresKeyNamed_def)
      next
        case False
        with ih k1 \<open>isKeyProperty d\<close> a show ?thesis by (simp add: declaresKeyNamed_def)
      qed
      with ih d1 True a show ?thesis by (simp add: declaresKey_def)
    qed
  qed
qed

lemma fold_addProperty_key:
  "key (fold (\<lambda>(i, properties) s'. addProperty h s' i properties) es s) = key s"
  by (induction es arbitrary: s) (auto simp: addProperty_def)

lemma fold_addProperty_keys:
  "dom (own (descriptor s))
     \<subseteq> dom (own (descriptor (fold (\<lambda>(i, properties) s'. addProperty h s' i properties) es s)))"
proof (induction es arbitrary: s)
  case Nil
  then show ?case by simp
next
  case (Cons e es)
  obtain i x where e: "e = (i, x)" by (cases e)
  have "dom (own (descriptor s)) \<subseteq> dom (own (descriptor (addProperty h s i x)))"
    by (simp add: addProperty_def keys_put)
  with Cons[of "addProperty h s i x"] e show ?case by auto
qed

lemma adjustDescriptor_key: "key (adjustDescriptor h s k d) = key s"
proof -
  have "key (addProperty h s1 i x) = key s1" for s1 i x
    by (simp add: addProperty_def)
  then show ?thesis
    by (simp add: adjustDescriptor_def fold_addProperty_key getRefs_def getIndexes_def)
qed

lemma adjustDescriptor_keys:
  "dom (own (descriptor s)) \<subseteq> dom (own (descriptor (adjustDescriptor h s k d)))"
proof -
  have a: "descriptor (getIndexes h (getRefs h s x) x y) = descriptor s" for x y
    by (simp add: getRefs_def getIndexes_def)
  show ?thesis
    unfolding adjustDescriptor_def
    using fold_addProperty_keys[of "getIndexes h (getRefs h s k) k Undefined" h "each_entries k"]
    by (auto simp: a addProperty_def own_put_any)
qed

lemma applyDocumentKey_normal:
  assumes "applyDocumentKey h s = Normal s'"
  shows "(declaresKey (descriptor s) \<longrightarrow>
            declaresKeyNamed (docKeyKey (key s')) (descriptor s)
            \<and> dom (own (descriptor s')) = dom (own (descriptor s)))
         \<and> (\<not> declaresKey (descriptor s) \<and> docKeyKey (key s) = [] \<longrightarrow> s' = synthesizeKey h s)
         \<and> (\<not> declaresKey (descriptor s) \<and> docKeyKey (key s) \<noteq> [] \<longrightarrow> s' = s)"
proof -
  obtain f c where l: "applyKeyLoop h (descriptor s) False s = (f, c)"
    by (cases "applyKeyLoop h (descriptor s) False s")
  with assms obtain s1 where c: "c = Normal s1"
    by (cases c) (auto simp: applyDocumentKey_def)
  have sub: "fst ` set (descriptor s) \<subseteq> dom (own (descriptor s))"
    by (simp add: keys_table)
  from applyKeyLoop_normal[OF l[unfolded c] sub]
  have n: "dom (own (descriptor s1)) = dom (own (descriptor s))" "f = declaresKey (descriptor s)"
    "declaresKey (descriptor s) \<longrightarrow> declaresKeyNamed (docKeyKey (key s1)) (descriptor s)"
    "\<not> declaresKey (descriptor s) \<longrightarrow> s1 = s" by auto
  from assms l c have
    "s' = (if \<not> f \<and> docKeyKey (key s1) = [] then synthesizeKey h s1 else s1)"
    by (auto simp: applyDocumentKey_def split: if_splits)
  with n show ?thesis by auto
qed

lemma synthesizeKey_facts:
  "docKeyKey (key (synthesizeKey h s)) = str ''id''"
  "generate (key (synthesizeKey h s)) = generate (key s)"
  "own (descriptor (synthesizeKey h s)) (str ''id'')
     = Some (normalizeProperties h (s\<lparr>key := (key s)\<lparr>docKeyKey := str ''id''\<rparr>\<rparr>) (Fn StringFn) (Str (str ''id'')))"
  by (simp_all add: synthesizeKey_def Let_def own_put_any str_def)

lemma declaresKeyNamed_keys: "declaresKeyNamed n t \<Longrightarrow> n \<in> dom (own t)"
  by (auto simp: declaresKeyNamed_def list_ex_iff keys_table intro: rev_image_eqI)

lemma applyDocumentKey_keyNamed:
  assumes "applyDocumentKey h s = Normal s'"
    and "docKeyKey (key s) = [] \<or> keyNamed s"
  shows "keyNamed s'"
proof -
  note n = applyDocumentKey_normal[OF assms(1)]
  consider "declaresKey (descriptor s)"
    | "\<not> declaresKey (descriptor s)" "docKeyKey (key s) = []"
    | "\<not> declaresKey (descriptor s)" "docKeyKey (key s) \<noteq> []" by blast
  then show ?thesis
  proof cases
    case 1
    with n have "declaresKeyNamed (docKeyKey (key s')) (descriptor s)"
      and "dom (own (descriptor s')) = dom (own (descriptor s))" by auto
    with declaresKeyNamed_keys[of "docKeyKey (key s')" "descriptor s"]
    show ?thesis by (auto simp: keyNamed_def)
  next
    case 2
    with n have "s' = synthesizeKey h s" by simp
    then show ?thesis by (simp add: keyNamed_def synthesizeKey_facts)
  next
    case 3
    with n assms(2) show ?thesis by simp
  qed
qed

lemma applyDocumentKey_empty:
  assumes "applyDocumentKey h s = Normal s'"
    and "docKeyKey (key s') = []"
  shows "declaresKeyNamed [] (descriptor s)"
proof -
  note n = applyDocumentKey_normal[OF assms(1)]
  have "str ''id'' \<noteq> []" by (simp add: str_def)
  with n assms(2) synthesizeKey_facts(1)[of h s] show ?thesis
    by (cases "declaresKey (descriptor s)"; cases "docKeyKey (key s) = []") auto
qed

lemma keyNamed_adjust:
  "docKeyKey (key s) = [] \<or> keyNamed s \<Longrightarrow>
     docKeyKey (key (adjustDescriptor h s k d)) = [] \<or> keyNamed (adjustDescriptor h s k d)"
  using adjustDescriptor_keys[of s h k d]
  by (auto simp: keyNamed_def adjustDescriptor_key)

lemma applyKeyOptions_keeps:
  "descriptor (applyKeyOptions s) = descriptor s"
  "docKeyKey (key (applyKeyOptions s)) = docKeyKey (key s)"
  "generate (key (applyKeyOptions s)) = generate (key s)"
  by (simp_all add: applyKeyOptions_def Let_def)

lemma Schema_normal:
  "Schema h d opts = Normal s' \<Longrightarrow>
     \<exists>s1. add h (initial opts) d Undefined = Normal s1 \<and> s' = applyKeyOptions s1"
  by (auto simp: Schema_def split: completion.splits)

text \<open>
  Claim C3, as the code has it. After a construction that completes, \<^verbatim>\<open>docKeyKey\<close> names a
  property of the descriptor; it is empty only where a key property of the descriptor,
  as \<^verbatim>\<open>add\<close> has normalized it, has the empty name; and where that descriptor declares no
  key, \<^verbatim>\<open>docKeyKey\<close> is \<^verbatim>\<open>id\<close>, generation is on, and \<^verbatim>\<open>id\<close> is the property that
  \<^verbatim>\<open>normalizeProperties\<close> makes of \<^verbatim>\<open>String\<close>. After an \<^verbatim>\<open>add\<close> that completes, on a schema
  whose \<^verbatim>\<open>docKeyKey\<close> was empty or named a property, \<^verbatim>\<open>docKeyKey\<close> names a property, and
  is empty only where a key property has the empty name.
\<close>

theorem document_key_after_add:
  "(Schema h d opts = Normal s' \<longrightarrow>
      keyNamed s'
      \<and> (docKeyKey (key s') = [] \<longrightarrow>
            declaresKeyNamed [] (descriptor (adjustDescriptor h (initial opts) d Undefined)))
      \<and> (\<not> declaresKey (descriptor (adjustDescriptor h (initial opts) d Undefined)) \<longrightarrow>
            docKeyKey (key s') = str ''id'' \<and> generate (key s') = True
            \<and> (\<exists>s0. own (descriptor s') (str ''id'')
                       = Some (normalizeProperties h s0 (Fn StringFn) (Str (str ''id''))))))
   \<and> (add h s k d = Normal s' \<and> (docKeyKey (key s) = [] \<or> keyNamed s) \<longrightarrow>
      keyNamed s'
      \<and> (docKeyKey (key s') = [] \<longrightarrow> declaresKeyNamed [] (descriptor (adjustDescriptor h s k d))))"
proof -
  have construct: "keyNamed s'
      \<and> (docKeyKey (key s') = [] \<longrightarrow>
            declaresKeyNamed [] (descriptor (adjustDescriptor h (initial opts) d Undefined)))
      \<and> (\<not> declaresKey (descriptor (adjustDescriptor h (initial opts) d Undefined)) \<longrightarrow>
            docKeyKey (key s') = str ''id'' \<and> generate (key s') = True
            \<and> (\<exists>s0. own (descriptor s') (str ''id'')
                       = Some (normalizeProperties h s0 (Fn StringFn) (Str (str ''id'')))))"
    if c: "Schema h d opts = Normal s'"
  proof -
    let ?a = "adjustDescriptor h (initial opts) d Undefined"
    from Schema_normal[OF c] obtain s1 where
      s1: "applyDocumentKey h ?a = Normal s1" "s' = applyKeyOptions s1"
      by (auto simp: add_def)
    have k0: "docKeyKey (key ?a) = []" "generate (key ?a) = True"
      by (simp_all add: adjustDescriptor_key initial_def)
    from applyDocumentKey_keyNamed[OF s1(1)] k0 have "keyNamed s1" by simp
    then have 1: "keyNamed s'" by (simp add: s1(2) keyNamed_def applyKeyOptions_keeps)
    have 2: "docKeyKey (key s') = [] \<longrightarrow> declaresKeyNamed [] (descriptor ?a)"
      using applyDocumentKey_empty[OF s1(1)] by (simp add: s1(2) applyKeyOptions_keeps)
    have 3: "docKeyKey (key s') = str ''id'' \<and> generate (key s') = True
            \<and> (\<exists>s0. own (descriptor s') (str ''id'')
                       = Some (normalizeProperties h s0 (Fn StringFn) (Str (str ''id''))))"
      if "\<not> declaresKey (descriptor ?a)"
    proof -
      from applyDocumentKey_normal[OF s1(1)] that k0 have "s1 = synthesizeKey h ?a" by simp
      then show ?thesis
        by (auto simp: s1(2) applyKeyOptions_keeps synthesizeKey_facts k0)
    qed
    from 1 2 3 show ?thesis by blast
  qed
  have added: "keyNamed s'
      \<and> (docKeyKey (key s') = [] \<longrightarrow> declaresKeyNamed [] (descriptor (adjustDescriptor h s k d)))"
    if a: "add h s k d = Normal s'" and i: "docKeyKey (key s) = [] \<or> keyNamed s"
  proof -
    from a have n: "applyDocumentKey h (adjustDescriptor h s k d) = Normal s'"
      by (simp add: add_def)
    from applyDocumentKey_keyNamed[OF n keyNamed_adjust[OF i]] applyDocumentKey_empty[OF n]
    show ?thesis by blast
  qed
  from construct added show ?thesis by blast
qed

lemma name_schema_eq:
  "name_schema =
     \<lparr>options = [(str ''strict'', Boolean True), (str ''dotNotation'', Boolean True)],
      descriptor = [(str ''name'', Obj [(str ''type'', Str (str ''string''))]),
                    (str ''id'', Obj [(str ''type'', Str (str ''string''))])],
      methods = [], statics = [], hooks = [], refs = [], indexes = [],
      key = \<lparr>docKeyKey = str ''id'', prefix = Null, suffix = Null, generate = True,
             dynamicKey = Undefined\<rparr>\<rparr>"
  by code_simp

text \<open>
  The theorem at \<^verbatim>\<open>new Schema({ name: String })\<close>: the key policy is the property \<^verbatim>\<open>id\<close>,
  of type string, with generation on; and at \<^verbatim>\<open>add('email', String)\<close> on that schema.
\<close>

theorem document_key_after_add_witness:
  "Schema sample_host (Obj [(str ''name'', Fn StringFn)]) [] = Normal name_schema
   \<and> \<not> declaresKey (descriptor (adjustDescriptor sample_host (initial [])
          (Obj [(str ''name'', Fn StringFn)]) Undefined))
   \<and> keyNamed name_schema
   \<and> key name_schema
       = \<lparr>docKeyKey = str ''id'', prefix = Null, suffix = Null, generate = True,
          dynamicKey = Undefined\<rparr>
   \<and> own (descriptor name_schema) (str ''id'') = Some (Obj [(str ''type'', Str (str ''string''))])
   \<and> add sample_host name_schema (Str (str ''email'')) (Fn StringFn)
       = Normal (name_schema\<lparr>descriptor := descriptor name_schema
                   @ [(str ''email'', Obj [(str ''type'', Str (str ''string''))])]\<rparr>)
   \<and> keyNamed (name_schema\<lparr>descriptor := descriptor name_schema
                   @ [(str ''email'', Obj [(str ''type'', Str (str ''string''))])]\<rparr>)"
proof -
  have a: "Schema sample_host (Obj [(str ''name'', Fn StringFn)]) [] = Normal name_schema"
    by code_simp
  have b: "\<not> declaresKey (descriptor (adjustDescriptor sample_host (initial [])
          (Obj [(str ''name'', Fn StringFn)]) Undefined))"
    by code_simp
  have c: "add sample_host name_schema (Str (str ''email'')) (Fn StringFn)
       = Normal (name_schema\<lparr>descriptor := descriptor name_schema
                   @ [(str ''email'', Obj [(str ''type'', Str (str ''string''))])]\<rparr>)"
    by code_simp
  have d: "key name_schema
       = \<lparr>docKeyKey = str ''id'', prefix = Null, suffix = Null, generate = True,
          dynamicKey = Undefined\<rparr>"
    "own (descriptor name_schema) (str ''id'') = Some (Obj [(str ''type'', Str (str ''string''))])"
    by (simp_all add: name_schema_eq own_def)
  have e: "docKeyKey (key name_schema) = [] \<or> keyNamed name_schema"
    by (simp add: keyNamed_def d)
  from document_key_after_add[of sample_host "Obj [(str ''name'', Fn StringFn)]" "[]" name_schema]
    a b
  have 1: "keyNamed name_schema" by blast
  from document_key_after_add[of sample_host "Fn StringFn" _ _ name_schema "Str (str ''email'')"]
    c e
  have 2: "keyNamed (name_schema\<lparr>descriptor := descriptor name_schema
                   @ [(str ''email'', Obj [(str ''type'', Str (str ''string''))])]\<rparr>)" by blast
  from a b c d 1 2 show ?thesis by blast
qed

text \<open>
  Claim C3 as stated fails where the key property has the empty name:
  \<^verbatim>\<open>new Schema({ '': { type: String, key: true } })\<close> completes with an empty \<^verbatim>\<open>docKeyKey\<close>.
\<close>

theorem document_key_empty_name_counterexample:
  "thrown (Schema sample_host
      (Obj [([], Obj [(str ''type'', Fn StringFn), (str ''key'', Boolean True)])]) []) = None
   \<and> docKeyKey (key (schema_of (Schema sample_host
      (Obj [([], Obj [(str ''type'', Fn StringFn), (str ''key'', Boolean True)])]) []))) = []"
  by code_simp

subsection \<open>Key conflicts\<close>

lemma fold_addProperty_other:
  "\<forall>e \<in> set es. ToString h (fst e) \<noteq> p \<Longrightarrow>
     own (descriptor (fold (\<lambda>(i, properties) s'. addProperty h s' i properties) es s)) p
       = own (descriptor s) p"
proof (induction es arbitrary: s)
  case Nil
  then show ?case by simp
next
  case (Cons e es)
  obtain i x where e: "e = (i, x)" by (cases e)
  with Cons.prems have "own (descriptor (addProperty h s i x)) p = own (descriptor s) p"
    by (auto simp: addProperty_def own_put_any)
  with Cons.IH[of "addProperty h s i x"] Cons.prems e show ?case by simp
qed

lemma fold_addProperty_entry:
  assumes "distinct (map (\<lambda>e. ToString h (fst e)) es)"
    and "(i, raw) \<in> set es"
    and "ToString h i \<noteq> str ''__proto__''"
  shows "\<exists>s0. own (descriptor (fold (\<lambda>(i, properties) s'. addProperty h s' i properties) es s))
                 (ToString h i) = Some (normalizeProperties h s0 raw i)"
  using assms(1,2)
proof (induction es arbitrary: s)
  case Nil
  then show ?case by simp
next
  case (Cons e es)
  obtain j x where e: "e = (j, x)" by (cases e)
  show ?case
  proof (cases "(i, raw) = e")
    case True
    from Cons.prems(1) have "ToString h (fst e) \<notin> set (map (\<lambda>e. ToString h (fst e)) es)"
      by simp
    moreover from True have "fst e = i" by auto
    ultimately have "\<forall>e' \<in> set es. ToString h (fst e') \<noteq> ToString h i"
      by (metis image_eqI set_map)
    from fold_addProperty_other[OF this, of "addProperty h s i raw"] True assms(3)
    show ?thesis by (auto simp: addProperty_def own_put_any)
  next
    case False
    with Cons.prems have "distinct (map (\<lambda>e. ToString h (fst e)) es)" "(i, raw) \<in> set es" by auto
    from Cons.IH[OF this, of "addProperty h s j x"] e show ?thesis by simp
  qed
qed

lemma conflict_in_table:
  "own t p = Some v \<Longrightarrow> keyConflict v \<Longrightarrow> list_ex (\<lambda>(p, d). keyConflict d) t"
  by (auto simp: own_def list_ex_iff dest!: map_of_SomeD)

lemma add_throws:
  "list_ex (\<lambda>(p, d). keyConflict d) (descriptor (adjustDescriptor h s k d)) \<Longrightarrow>
     \<exists>m s'. add h s k d = Throw (TypeError m) s'"
  by (simp add: add_def applyDocumentKey_throw)

lemma Schema_throws:
  "list_ex (\<lambda>(p, d). keyConflict d) (descriptor (adjustDescriptor h (initial opts) d Undefined)) \<Longrightarrow>
     \<exists>m s'. Schema h d opts = Throw (TypeError m) s'"
  using add_throws[of h "initial opts" d Undefined]
  by (auto simp: Schema_def)

lemma adjust_object_conflict:
  assumes "\<forall>s0. keyConflict (normalizeProperties h s0 raw i)"
    and "ToString h i \<noteq> str ''__proto__''"
    and "typeof_object k" and "(i, raw) \<in> set (each_entries k)"
    and "distinct (map (\<lambda>e. ToString h (fst e)) (each_entries k))"
  shows "list_ex (\<lambda>(p, d). keyConflict d) (descriptor (adjustDescriptor h s k Undefined))"
proof -
  from assms(3) have "\<not> (truthy k \<and> truthy Undefined)" by simp
  with assms(3) have a: "adjustDescriptor h s k Undefined
      = fold (\<lambda>(i, properties) s'. addProperty h s' i properties) (each_entries k)
          (getIndexes h (getRefs h s k) k Undefined)"
    by (simp add: adjustDescriptor_def)
  from fold_addProperty_entry[OF assms(5,4,2)] obtain s0 where
    "own (descriptor (adjustDescriptor h s k Undefined)) (ToString h i)
       = Some (normalizeProperties h s0 raw i)"
    unfolding a by blast
  from conflict_in_table[OF this] assms(1) show ?thesis by blast
qed

lemma adjust_property_conflict:
  assumes "\<forall>s0. keyConflict (normalizeProperties h s0 raw i)"
    and "ToString h i \<noteq> str ''__proto__''"
    and "truthy i" and "truthy raw"
  shows "list_ex (\<lambda>(p, d). keyConflict d) (descriptor (adjustDescriptor h s i raw))"
proof -
  from assms(2,3,4) have
    "own (descriptor (adjustDescriptor h s i raw)) (ToString h i)
       = Some (normalizeProperties h (getIndexes h (getRefs h s raw) raw i) raw i)"
    by (simp add: adjustDescriptor_def addProperty_def own_put_any)
  from conflict_in_table[OF this] assms(1) show ?thesis by blast
qed

text \<open>
  Claim C4, as the code has it. The conflict is looked for in \<^verbatim>\<open>this.descriptor\<close>, among the
  properties that \<^verbatim>\<open>add\<close> has stored there. Let a property \<open>i\<close> with descriptor \<open>raw\<close> be one
  that \<^verbatim>\<open>normalizeProperties\<close> leaves a key property in conflict: marked \<^verbatim>\<open>key: true\<close> and
  also \<^verbatim>\<open>index: true\<close>, or with a \<^verbatim>\<open>ref\<close>, or with a type other than the string and number
  types; and let \<open>i\<close> not be \<^verbatim>\<open>__proto__\<close>. Then constructing a schema from an object among
  whose properties, as \<^verbatim>\<open>_.each\<close> visits them under names of their own, is this one throws
  a \<^verbatim>\<open>TypeError\<close>, and so does \<^verbatim>\<open>add\<close> of that object; and \<^verbatim>\<open>add(i, raw)\<close> throws one where
  \<open>i\<close> and \<open>raw\<close> are truthy.
\<close>

theorem key_conflict_throws:
  assumes "\<forall>s0. keyConflict (normalizeProperties h s0 raw i)"
    and "ToString h i \<noteq> str ''__proto__''"
  shows "(typeof_object k \<and> (i, raw) \<in> set (each_entries k)
            \<and> distinct (map (\<lambda>e. ToString h (fst e)) (each_entries k)) \<longrightarrow>
          (\<exists>m s'. Schema h k opts = Throw (TypeError m) s')
          \<and> (\<exists>m s'. add h s k Undefined = Throw (TypeError m) s'))
         \<and> (truthy i \<and> truthy raw \<longrightarrow> (\<exists>m s'. add h s i raw = Throw (TypeError m) s'))"
  using adjust_object_conflict[OF assms, of k] adjust_property_conflict[OF assms, of s]
    add_throws[of h s] Schema_throws[of h opts k]
  by blast

text \<open>
  The theorem at the three descriptors of the claim, with the message each one is refused
  with.
\<close>

theorem key_conflict_throws_witness:
  "keyConflict (normalize index_key_descriptor)
   \<and> keyConflict (normalize ref_key_descriptor)
   \<and> keyConflict (normalize object_key_descriptor)
   \<and> thrown (Schema sample_host (Obj [(str ''id'', index_key_descriptor)]) [])
       = Some (TypeError ''Schema key cannot be index field'')
   \<and> thrown (Schema sample_host (Obj [(str ''id'', ref_key_descriptor)]) [])
       = Some (TypeError ''Schema key cannot be reference property'')
   \<and> thrown (Schema sample_host (Obj [(str ''id'', object_key_descriptor)]) [])
       = Some (TypeError ''Schema expects key to be a String or a Number'')
   \<and> thrown (add sample_host name_schema (Str (str ''id'')) index_key_descriptor)
       = Some (TypeError ''Schema key cannot be index field'')"
proof -
  have c: "keyConflict (normalize index_key_descriptor)"
    "keyConflict (normalize ref_key_descriptor)"
    "keyConflict (normalize object_key_descriptor)"
    by code_simp+
  have n: "\<forall>s0. keyConflict (normalizeProperties sample_host s0 index_key_descriptor (Str (str ''id'')))"
    using c by (simp add: sample_host_def)
  have p: "ToString sample_host (Str (str ''id'')) \<noteq> str ''__proto__''"
    by (simp add: str_def)
  have o: "typeof_object (Obj [(str ''id'', index_key_descriptor)])"
    "(Str (str ''id''), index_key_descriptor) \<in> set (each_entries (Obj [(str ''id'', index_key_descriptor)]))"
    "distinct (map (\<lambda>e. ToString sample_host (fst e)) (each_entries (Obj [(str ''id'', index_key_descriptor)])))"
    "truthy (Str (str ''id''))" "truthy index_key_descriptor"
    by (simp_all add: each_entries_def own_def str_def index_key_descriptor_def)
  have e: "thrown (Schema sample_host (Obj [(str ''id'', index_key_descriptor)]) [])
       = Some (TypeError ''Schema key cannot be index field'')"
    "thrown (Schema sample_host (Obj [(str ''id'', ref_key_descriptor)]) [])
       = Some (TypeError ''Schema key cannot be reference property'')"
    "thrown (Schema sample_host (Obj [(str ''id'', object_key_descriptor)]) [])
       = Some (TypeError ''Schema expects key to be a String or a Number'')"
    "thrown (add sample_host name_schema (Str (str ''id'')) index_key_descriptor)
       = Some (TypeError ''Schema key cannot be index field'')"
    by code_simp+
  from key_conflict_throws[OF n p, of "Obj [(str ''id'', index_key_descriptor)]" "[]" name_schema] o
  have "\<exists>m s'. Schema sample_host (Obj [(str ''id'', index_key_descriptor)]) [] = Throw (TypeError m) s'"
    by blast
  with c e show ?thesis by blast
qed

text \<open>
  Claim C4 as stated fails where \<^verbatim>\<open>add\<close> does not store the property. \<^verbatim>\<open>add\<close> stores a named
  property under \<^verbatim>\<open>if (key && descriptor)\<close>, so \<^verbatim>\<open>add('', {type: String, key: true, index: true})\<close>
  stores nothing and completes with the schema as it was. And \<^verbatim>\<open>_.each\<close> reads an object
  with \<^verbatim>\<open>length: 0\<close> as an empty array, so
  \<^verbatim>\<open>new Schema({id: {type: String, key: true, index: true}, length: 0})\<close> completes, with the
  synthesized \<^verbatim>\<open>id\<close> as its key.
\<close>

theorem key_conflict_not_stored_counterexample:
  "keyConflict (normalize index_key_descriptor)
   \<and> add sample_host name_schema (Str []) index_key_descriptor = Normal name_schema
   \<and> thrown (Schema sample_host
        (Obj [(str ''id'', index_key_descriptor), (str ''length'', Num 0)]) []) = None
   \<and> own (descriptor (schema_of (Schema sample_host
        (Obj [(str ''id'', index_key_descriptor), (str ''length'', Num 0)]) []))) (str ''id'')
       = Some (Obj [(str ''type'', Str (str ''string''))])"
  by code_simp

subsection \<open>Extending a schema\<close>

lemma quiet_schema_eq: "quiet_schema = name_schema\<lparr>statics := [(str ''DEBUG'', Boolean False)]\<rparr>"
  by (simp add: quiet_schema_def static_def static_named_def name_schema_eq put_def own_def str_def)

lemma verbose_schema_eq: "verbose_schema = name_schema\<lparr>statics := [(str ''DEBUG'', Boolean True)]\<rparr>"
  by (simp add: verbose_schema_def static_def static_named_def name_schema_eq put_def own_def str_def)

text \<open>
  Claim C5 does not hold of the code: \<^verbatim>\<open>_cloneProp\<close> takes an entry when \<^verbatim>\<open>!this[prop][p]\<close>,
  which is also true of an entry that is there with a falsy value. Extending the schema
  whose static \<^verbatim>\<open>DEBUG\<close> is \<^verbatim>\<open>false\<close> by the one whose \<^verbatim>\<open>DEBUG\<close> is \<^verbatim>\<open>true\<close> overwrites it,
  with every host.
\<close>

theorem extend_overwrites_falsy_static:
  "extend h quiet_schema (Instance verbose_schema)
     = Normal (quiet_schema\<lparr>statics := [(str ''DEBUG'', Boolean True)]\<rparr>)"
  by (simp add: extend_def quiet_schema_eq verbose_schema_eq name_schema_eq cloneTable_def read_def
      own_def put_def str_def extendOption_def get_schema_def objectPrototypeNames_def Let_def)

text \<open>The static before and after, on both schemas, with the sample host.\<close>

theorem extend_overwrites_falsy_static_witness:
  "own (statics quiet_schema) (str ''DEBUG'') = Some (Boolean False)
   \<and> own (statics verbose_schema) (str ''DEBUG'') = Some (Boolean True)
   \<and> own (statics (schema_of (extend sample_host quiet_schema (Instance verbose_schema))))
       (str ''DEBUG'') = Some (Boolean True)"
  using extend_overwrites_falsy_static[of sample_host]
  by (simp add: quiet_schema_eq verbose_schema_eq own_def)

text \<open>
  What \<^verbatim>\<open>_cloneProp\<close> does without \<^verbatim>\<open>add\<close>: an entry with a truthy value stays, and an entry
  of the other table is copied where this table reads as falsy under its name.
\<close>

lemma read_own: "own t p = Some v \<Longrightarrow> read t p = v"
  by (simp add: read_def)

lemma cloneTable_keeps:
  "own ours p = Some v \<Longrightarrow> truthy v \<Longrightarrow> own (cloneTable theirs ours) p = Some v"
proof (induction theirs arbitrary: ours)
  case Nil
  then show ?case by (simp add: cloneTable_def)
next
  case (Cons e theirs)
  obtain q w where e: "e = (q, w)" by (cases e)
  let ?t = "if \<not> truthy (read ours q) then put ours q w else ours"
  from Cons.prems have "own ?t p = Some v"
    by (auto simp: own_put_any read_own)
  from Cons.IH[OF this Cons.prems(2)] e show ?case
    by (simp add: cloneTable_def)
qed

lemma falsy_read_put:
  "\<not> truthy (read t p) \<Longrightarrow> own (put t p w) p = Some w"
  by (auto simp: own_put_any read_def split: option.splits if_splits)

lemma read_put_other: "q \<noteq> p \<Longrightarrow> read (put t q w) p = read t p"
  by (simp add: read_def own_put_any)

lemma cloneTable_other:
  "\<forall>e \<in> set theirs. fst e \<noteq> p \<Longrightarrow> own (cloneTable theirs ours) p = own ours p"
proof (induction theirs arbitrary: ours)
  case Nil
  then show ?case by (simp add: cloneTable_def)
next
  case (Cons e theirs)
  obtain q w where e: "e = (q, w)" by (cases e)
  let ?t = "if \<not> truthy (read ours q) then put ours q w else ours"
  from Cons.prems e have "own ?t p = own ours p"
    by (auto simp: own_put_any)
  with Cons.IH[of ?t] Cons.prems e show ?case
    by (simp add: cloneTable_def)
qed

lemma cloneTable_copies:
  assumes "distinct (map fst theirs)" and "(p, w) \<in> set theirs" and "\<not> truthy (read ours p)"
  shows "own (cloneTable theirs ours) p = Some w"
  using assms
proof (induction theirs arbitrary: ours)
  case Nil
  then show ?case by simp
next
  case (Cons e theirs)
  obtain q x where e: "e = (q, x)" by (cases e)
  let ?t = "if \<not> truthy (read ours q) then put ours q x else ours"
  have step: "cloneTable (e # theirs) ours = cloneTable theirs ?t"
    by (simp add: cloneTable_def e)
  show ?case
  proof (cases "e = (p, w)")
    case True
    with Cons.prems(1) have "\<forall>e' \<in> set theirs. fst e' \<noteq> p" by force
    from cloneTable_other[OF this, of ?t] True e Cons.prems(3) show ?thesis
      unfolding step by (simp add: falsy_read_put)
  next
    case False
    with Cons.prems have in_rest: "(p, w) \<in> set theirs" and d: "distinct (map fst theirs)" by auto
    with Cons.prems(1) e have "q \<noteq> p" by force
    with Cons.prems(3) have "\<not> truthy (read ?t p)" by (simp add: read_put_other)
    from Cons.IH[OF d in_rest this] show ?thesis by (simp add: step)
  qed
qed

lemma applyKeyProperty_tables:
  "methods (schema_of (applyKeyProperty h s p d)) = methods s
   \<and> statics (schema_of (applyKeyProperty h s p d)) = statics s"
  by (simp add: applyKeyProperty_def Let_def split: jsval.splits)

lemma applyKeyLoop_tables:
  "applyKeyLoop h ps found s = (f, c) \<Longrightarrow>
     methods (schema_of c) = methods s \<and> statics (schema_of c) = statics s"
proof (induction ps arbitrary: found s)
  case Nil
  then show ?case by auto
next
  case (Cons a ps)
  obtain p d where a: "a = (p, d)" by (cases a)
  show ?case
  proof (cases "isKeyProperty d")
    case False
    with Cons a show ?thesis by simp
  next
    case True
    show ?thesis
    proof (cases "applyKeyProperty h s p d")
      case (Throw e s1)
      with applyKeyProperty_tables[of h s p d]
      have "methods s1 = methods s \<and> statics s1 = statics s" by simp
      with Throw Cons.prems True a applyKeyProperty_tables[of h s p d] show ?thesis by auto
    next
      case (Normal s1)
      with applyKeyProperty_tables[of h s p d]
      have "methods s1 = methods s \<and> statics s1 = statics s" by simp
      with Cons.IH[of True s1] Cons.prems True a Normal show ?thesis by simp
    qed
  qed
qed

lemma applyDocumentKey_tables:
  "methods (schema_of (applyDocumentKey h s)) = methods s
   \<and> statics (schema_of (applyDocumentKey h s)) = statics s"
proof -
  obtain f c where l: "applyKeyLoop h (descriptor s) False s = (f, c)"
    by (cases "applyKeyLoop h (descriptor s) False s")
  from applyKeyLoop_tables[OF l] l show ?thesis
    by (cases c) (auto simp: applyDocumentKey_def synthesizeKey_def Let_def)
qed

lemma fold_addProperty_tables:
  "methods (fold (\<lambda>(i, properties) s'. addProperty h s' i properties) es s) = methods s
   \<and> statics (fold (\<lambda>(i, properties) s'. addProperty h s' i properties) es s) = statics s"
  by (induction es arbitrary: s) (auto simp: addProperty_def)

lemma add_tables:
  "methods (schema_of (add h s k d)) = methods s \<and> statics (schema_of (add h s k d)) = statics s"
proof -
  have "methods (addProperty h s1 i x) = methods s1 \<and> statics (addProperty h s1 i x) = statics s1"
    for s1 i x by (simp add: addProperty_def)
  then have "methods (adjustDescriptor h s k d) = methods s
     \<and> statics (adjustDescriptor h s k d) = statics s"
    by (simp add: adjustDescriptor_def fold_addProperty_tables getRefs_def getIndexes_def)
  with applyDocumentKey_tables[of h "adjustDescriptor h s k d"] show ?thesis
    by (simp add: add_def)
qed

lemma cloneDescriptor_tables:
  "methods (schema_of (cloneDescriptor h t s)) = methods s
   \<and> statics (schema_of (cloneDescriptor h t s)) = statics s"
proof (induction t arbitrary: s)
  case Nil
  then show ?case by simp
next
  case (Cons a t)
  obtain p d where a: "a = (p, d)" by (cases a)
  show ?case
  proof (cases "truthy (read (descriptor s) p)")
    case True
    with Cons a show ?thesis by simp
  next
    case False
    show ?thesis
    proof (cases "add h s (Str p) d")
      case (Normal s1)
      with add_tables[of h s "Str p" d] Cons[of s1] False a show ?thesis by simp
    next
      case (Throw e s1)
      with add_tables[of h s "Str p" d] False a show ?thesis by simp
    qed
  qed
qed

lemma fold_extendOption_tables:
  "methods (fold (extendOption h) os s) = methods s \<and> statics (fold (extendOption h) os s) = statics s"
  by (induction os arbitrary: s) (auto simp: extendOption_def set_schema_def Let_def)

lemma extendHook_tables:
  "methods (extendHook ke s) = methods s \<and> statics (extendHook ke s) = statics s"
proof -
  have "methods (fold (\<lambda>fn s'. hook_schema s' k n fn) fs s) = methods s
      \<and> statics (fold (\<lambda>fn s'. hook_schema s' k n fn) fs s) = statics s" for k n fs
    by (induction fs arbitrary: s) (auto simp: hook_schema_def split: option.splits)
  then show ?thesis by (simp add: extendHook_def)
qed

lemma fold_extendHook_tables:
  "methods (fold extendHook hs s) = methods s \<and> statics (fold extendHook hs s) = statics s"
  by (induction hs arbitrary: s) (auto simp: extendHook_tables)

text \<open>What a completed \<^verbatim>\<open>extend\<close> leaves in the tables of statics and methods.\<close>

lemma extend_tables:
  assumes "extend h a (Instance b) = Normal s'"
  shows "statics s' = cloneTable (statics b) (statics a)"
    and "methods s' = cloneTable (methods b) (methods a)"
proof -
  from assms obtain s1 where c: "cloneDescriptor h (descriptor b) a = Normal s1"
    by (auto simp: extend_def split: completion.splits)
  from cloneDescriptor_tables[of h "descriptor b" a] c
  have m: "methods s1 = methods a" "statics s1 = statics a" by simp_all
  from assms c show "statics s' = cloneTable (statics b) (statics a)"
    and "methods s' = cloneTable (methods b) (methods a)"
    by (auto simp: extend_def Let_def fold_extendHook_tables fold_extendOption_tables m)
qed

text \<open>
  The example of claim C5 holds: a method \<^verbatim>\<open>foo\<close> of the receiver, a function, is kept
  whatever the other schema has under that name, and a method \<^verbatim>\<open>bar\<close> of the other schema
  is copied where the receiver reads as falsy under \<^verbatim>\<open>bar\<close>. The other schema has no method
  named \<^verbatim>\<open>hasOwnProperty\<close>, which the loop would call.
\<close>

theorem extend_keeps_and_copies_methods:
  assumes "extend h a (Instance b) = Normal s'"
    and "own (methods a) foo = Some f" and "isFunction f"
    and "distinct (map fst (methods b))" and "(bar, g) \<in> set (methods b)"
    and "\<not> truthy (read (methods a) bar)"
    and "own (methods b) (str ''hasOwnProperty'') = None"
  shows "own (methods s') foo = Some f \<and> own (methods s') bar = Some g"
proof -
  from assms(3) have "truthy f" by (cases f) simp_all
  from cloneTable_keeps[OF assms(2) this] cloneTable_copies[OF assms(4,5,6)]
  show ?thesis by (simp add: extend_tables[OF assms(1)])
qed

lemma foo_schema_eq: "foo_schema = name_schema\<lparr>methods := [(str ''foo'', Fn (UserFn 1))]\<rparr>"
  by (simp add: foo_schema_def method_schema_def method_named_def name_schema_eq put_def own_def str_def)

lemma foo_bar_schema_eq:
  "foo_bar_schema
     = name_schema\<lparr>methods := [(str ''foo'', Fn (UserFn 2)), (str ''bar'', Fn (UserFn 3))]\<rparr>"
  by (simp add: foo_bar_schema_def method_schema_def method_named_def name_schema_eq put_def
      own_def str_def)

text \<open>The theorem at the two sample schemas with methods.\<close>

theorem extend_keeps_and_copies_methods_witness:
  "extend sample_host foo_schema (Instance foo_bar_schema)
     = Normal (foo_schema\<lparr>methods := [(str ''foo'', Fn (UserFn 1)), (str ''bar'', Fn (UserFn 3))]\<rparr>)
   \<and> own (methods foo_schema) (str ''foo'') = Some (Fn (UserFn 1))
   \<and> isFunction (Fn (UserFn 1))
   \<and> distinct (map fst (methods foo_bar_schema))
   \<and> (str ''bar'', Fn (UserFn 3)) \<in> set (methods foo_bar_schema)
   \<and> \<not> truthy (read (methods foo_schema) (str ''bar''))
   \<and> own (methods foo_bar_schema) (str ''hasOwnProperty'') = None
   \<and> own (methods (foo_schema\<lparr>methods := [(str ''foo'', Fn (UserFn 1)), (str ''bar'', Fn (UserFn 3))]\<rparr>))
        (str ''foo'') = Some (Fn (UserFn 1))
   \<and> own (methods (foo_schema\<lparr>methods := [(str ''foo'', Fn (UserFn 1)), (str ''bar'', Fn (UserFn 3))]\<rparr>))
        (str ''bar'') = Some (Fn (UserFn 3))"
proof -
  have a: "extend sample_host foo_schema (Instance foo_bar_schema)
     = Normal (foo_schema\<lparr>methods := [(str ''foo'', Fn (UserFn 1)), (str ''bar'', Fn (UserFn 3))]\<rparr>)"
    by (simp add: extend_def foo_schema_eq foo_bar_schema_eq name_schema_eq cloneTable_def read_def
        own_def put_def str_def extendOption_def get_schema_def objectPrototypeNames_def Let_def)
  have b: "own (methods foo_schema) (str ''foo'') = Some (Fn (UserFn 1))"
    "isFunction (Fn (UserFn 1))"
    "distinct (map fst (methods foo_bar_schema))"
    "(str ''bar'', Fn (UserFn 3)) \<in> set (methods foo_bar_schema)"
    "\<not> truthy (read (methods foo_schema) (str ''bar''))"
    "own (methods foo_bar_schema) (str ''hasOwnProperty'') = None"
    by (simp_all add: foo_schema_eq foo_bar_schema_eq read_def own_def str_def objectPrototypeNames_def)
  from extend_keeps_and_copies_methods[OF a b] a b show ?thesis by simp
qed

subsection \<open>Reference keys\<close>

lemma ref_schema_eq:
  "ref_schema =
     \<lparr>options = [(str ''strict'', Boolean True), (str ''dotNotation'', Boolean True),
                 (str ''refIndexKeyPrefix'', Str (str ''$_ref_by_'')),
                 (str ''delimiter'', Str (str ''_''))],
      descriptor = [(str ''email'', Obj [(str ''type'', Str (str ''string''))]),
                    (str ''id'', Obj [(str ''type'', Str (str ''string''))])],
      methods = [], statics = [], hooks = [], refs = [],
      indexes = [(str ''email'', \<lparr>path = Single (str ''email''), name = str ''email'',
                   indexType = str ''single'', compound = False, refKeyCase = Some (str ''lower'')\<rparr>)],
      key = \<lparr>docKeyKey = str ''id'', prefix = Null, suffix = Null,
             generate = True, dynamicKey = Undefined\<rparr>\<rparr>"
  by code_simp

text \<open>
  Claim C1, as the code has it. Let \<open>kp\<close> be the key prefix (\<^verbatim>\<open>keyPrefix\<close>, or the result of
  \<^verbatim>\<open>dynamicKey()\<close>), \<open>fp\<close> the full prefix \<^verbatim>\<open>kp + refIndexKeyPrefix + name + delimiter\<close> and
  \<open>w\<close> the value \<open>v\<close> in the casing of the index. Where \<open>fp + w\<close> is longer than 250 bytes
  in UTF-8 the key is \<open>fp\<close>, then \<^verbatim>\<open>hashed_\<close>, then the digest of \<open>w\<close>: the tag starts the
  value, not the key, and the key differs from \<open>fp + w\<close> unless \<open>w\<close> is itself the tag and
  its own digest. Otherwise the key is \<open>fp + w\<close>.
\<close>

theorem getRefKey_hashes_long_values:
  assumes "refKeyPrefix h s = Inr (Str kp)"
    and "fp = fullPrefix h s kp nm"
    and "w = foldCase h s nm v"
  shows "(MAX_REF_KEY_LENGTH < byteLength (fp @ w) \<longrightarrow>
            getRefKey h s nm v = Inr (fp @ str ''hashed_'' @ md5_hex h w)
            \<and> (w \<noteq> str ''hashed_'' @ md5_hex h w \<longrightarrow> getRefKey h s nm v \<noteq> Inr (fp @ w)))
         \<and> (byteLength (fp @ w) \<le> MAX_REF_KEY_LENGTH \<longrightarrow> getRefKey h s nm v = Inr (fp @ w))"
  using assms by (auto simp: getRefKey_def Let_def)

text \<open>
  The theorem at the index \<^verbatim>\<open>email\<close> of the sample schema: at a value of 251 letters, and
  at \<^verbatim>\<open>'Joe@X.org'\<close>, which the index stores in lower case.
\<close>

theorem getRefKey_hashes_long_values_witness:
  "refKeyPrefix sample_host ref_schema = Inr (Str [])
   \<and> str ''$_ref_by_email_'' = fullPrefix sample_host ref_schema [] (str ''email'')
   \<and> replicate 251 0x61 = foldCase sample_host ref_schema (str ''email'') (replicate 251 0x61)
   \<and> str ''joe@x.org'' = foldCase sample_host ref_schema (str ''email'') (str ''Joe@X.org'')
   \<and> MAX_REF_KEY_LENGTH < byteLength (str ''$_ref_by_email_'' @ replicate 251 0x61)
   \<and> byteLength (str ''$_ref_by_email_'' @ str ''joe@x.org'') \<le> MAX_REF_KEY_LENGTH
   \<and> replicate 251 0x61 \<noteq> str ''hashed_'' @ md5_hex sample_host (replicate 251 0x61)
   \<and> getRefKey sample_host ref_schema (str ''email'') (replicate 251 0x61)
       = Inr (str ''$_ref_by_email_'' @ str ''hashed_'' @ md5_hex sample_host (replicate 251 0x61))
   \<and> getRefKey sample_host ref_schema (str ''email'') (replicate 251 0x61)
       \<noteq> Inr (str ''$_ref_by_email_'' @ replicate 251 0x61)
   \<and> getRefKey sample_host ref_schema (str ''email'') (str ''Joe@X.org'')
       = Inr (str ''$_ref_by_email_'' @ str ''joe@x.org'')"
proof -
  have a: "refKeyPrefix sample_host ref_schema = Inr (Str [])"
    by code_simp
  have b: "str ''$_ref_by_email_'' = fullPrefix sample_host ref_schema [] (str ''email'')"
    by code_simp
  have c: "replicate 251 0x61 = foldCase sample_host ref_schema (str ''email'') (replicate 251 0x61)"
    by code_simp
  have d: "str ''joe@x.org'' = foldCase sample_host ref_schema (str ''email'') (str ''Joe@X.org'')"
    by code_simp
  have e: "MAX_REF_KEY_LENGTH < byteLength (str ''$_ref_by_email_'' @ replicate 251 0x61)"
    by code_simp
  have f: "byteLength (str ''$_ref_by_email_'' @ str ''joe@x.org'') \<le> MAX_REF_KEY_LENGTH"
    by code_simp
  have g: "replicate 251 0x61 \<noteq> str ''hashed_'' @ md5_hex sample_host (replicate 251 0x61)"
    by code_simp
  from getRefKey_hashes_long_values[OF a b c] getRefKey_hashes_long_values[OF a b d]
  show ?thesis using a b c d e f g by blast
qed

text \<open>
  Claim C1 as stated fails at its first part: the key of a value of 251 letters starts
  with the full prefix \<^verbatim>\<open>$_ref_by_email_\<close>, and \<^verbatim>\<open>hashed_\<close> comes after it.
\<close>

theorem getRefKey_starts_with_prefix_counterexample:
  "MAX_REF_KEY_LENGTH < byteLength (str ''$_ref_by_email_'' @ replicate 251 0x61)
   \<and> getRefKey sample_host ref_schema (str ''email'') (replicate 251 0x61)
       = Inr (str ''$_ref_by_email_hashed_'' @ md5_hex sample_host (replicate 251 0x61))
   \<and> take 7 (str ''$_ref_by_email_hashed_'' @ md5_hex sample_host (replicate 251 0x61))
       = str ''$_ref_b''
   \<and> str ''$_ref_b'' \<noteq> str ''hashed_''"
  by code_simp

end
